(* ===== verification/Prelude.thy ===== *)
theory Prelude
  imports Main "HOL-Library.Sublist" "HOL-Library.Multiset"
begin

text \<open>
  Shared vocabulary of the development: the rule collections the component theories fill,
  the type names of the model, and generic facts on lists, options and sums that the
  proofs of several components use.
\<close>

named_theorems act_simps "evaluation rules of the effect monad of the handler"

text \<open>A JavaScript string value.  Code units are modelled as Isabelle characters.\<close>

type_synonym js_string = string

text \<open>A JavaScript value that may be \<open>undefined\<close>: \<open>None\<close> is \<open>undefined\<close>.\<close>

type_synonym 'a js_opt = "'a option"

subsection \<open>Generic facts\<close>

lemma prefix_take_length:
  "prefix p s \<longleftrightarrow> take (length p) s = p"
  by (metis append_eq_conv_conj prefix_def)

lemma size_list_le_sum_list:
  "(\<And>x. x \<in> set xs \<Longrightarrow> f x \<le> g x) \<Longrightarrow> size_list f xs \<le> sum_list (map (\<lambda>x. g x + 1) xs)"
  by (induction xs) (auto intro: add_mono)

lemma sum_list_map_update:
  fixes f :: "'a \<Rightarrow> 'b::comm_monoid_add"
  shows "k < length xs \<Longrightarrow> sum_list (map f (xs[k := x])) + f (xs ! k) = sum_list (map f xs) + f x"
  by (induction xs arbitrary: k) (auto simp: add_ac split: nat.splits)

lemma sorted_map_last_max:
  "sorted (map f xs) \<Longrightarrow> x \<in> set xs \<Longrightarrow> f x \<le> f (last xs)"
  by (induction xs) (auto simp: last_in_set)

end
