(* ===== verification/JsRuntime.thy ===== *)
theory JsRuntime
  imports Prelude
begin

text \<open>
  The parts of the ECMAScript runtime whose behaviour the handler of \<^verbatim>\<open>src/src/main.tsx\<close>
  depends on, modelled from ECMA-262: thrown values and the property read
  \<^verbatim>\<open>error.message\<close> in the \<^verbatim>\<open>catch\<close> blocks, truthiness of \<^verbatim>\<open>!webhook\<close> and
  \<^verbatim>\<open>lastMessageId ?\<close>, nullish coalescing \<^verbatim>\<open>??\<close>, template interpolation \<^verbatim>\<open>`${x}`\<close>,
  \<^verbatim>\<open>String.prototype.replace\<close> with a string pattern, and the property order of
  \<^verbatim>\<open>Object.keys\<close>.  None of this is code of the repository; it is the environment the
  repository's code runs in.
\<close>

section \<open>Thrown values\<close>

text \<open>
  A JavaScript \<^verbatim>\<open>throw\<close> or a rejected promise carries any value.  What the handler
  does with it depends only on whether \<^verbatim>\<open>.message\<close> can be read.
\<close>

datatype js_thrown =
    Err_obj js_string js_string   \<comment> \<open>an \<^verbatim>\<open>Error\<close> instance: constructor name, message\<close>
  | Obj_without_message           \<comment> \<open>an object with no \<^verbatim>\<open>message\<close> property\<close>
  | Prim_thrown js_string         \<comment> \<open>a thrown string, number or boolean\<close>
  | Null_thrown
  | Undefined_thrown

text \<open>
  \<^verbatim>\<open>error.message\<close>: reading a property of \<^verbatim>\<open>null\<close> or \<^verbatim>\<open>undefined\<close> throws a
  \<^verbatim>\<open>TypeError\<close>; on any other value a missing property reads as \<^verbatim>\<open>undefined\<close>.
\<close>

fun message_of :: "js_thrown \<Rightarrow> js_thrown + js_string js_opt" where
  "message_of (Err_obj n m) = Inr (Some m)"
| "message_of Obj_without_message = Inr None"
| "message_of (Prim_thrown s) = Inr None"
| "message_of Null_thrown =
     Inl (Err_obj ''TypeError'' ''Cannot read properties of null (reading 'message')'')"
| "message_of Undefined_thrown =
     Inl (Err_obj ''TypeError'' ''Cannot read properties of undefined (reading 'message')'')"

definition is_error_object :: "js_thrown \<Rightarrow> bool" where
  "is_error_object e \<longleftrightarrow> (\<exists>n m. e = Err_obj n m)"

section \<open>Truthiness, nullish coalescing, template strings\<close>

text \<open>\<^verbatim>\<open>!x\<close> for a string-or-undefined: \<^verbatim>\<open>undefined\<close> and \<^verbatim>\<open>''\<close> are falsy.\<close>

fun js_truthy :: "js_string js_opt \<Rightarrow> bool" where
  "js_truthy None = False"
| "js_truthy (Some s) = (s \<noteq> [])"

text \<open>\<^verbatim>\<open>x ?? d\<close>: only \<^verbatim>\<open>undefined\<close> (or \<^verbatim>\<open>null\<close>) is replaced; \<^verbatim>\<open>''\<close> is kept.\<close>

fun js_coalesce :: "'a js_opt \<Rightarrow> 'a \<Rightarrow> 'a" where
  "js_coalesce None d = d"
| "js_coalesce (Some x) d = x"

text \<open>\<^verbatim>\<open>`${x}`\<close> for a string-or-undefined: \<^verbatim>\<open>undefined\<close> prints as the word.\<close>

fun js_template :: "js_string js_opt \<Rightarrow> js_string" where
  "js_template None = ''undefined''"
| "js_template (Some s) = s"

section \<open>String.prototype.replace with a string pattern\<close>

text \<open>
  ECMA-262 \<open>StringIndexOf(string, searchValue, fromIndex)\<close>: the least position from
  \<open>fromIndex\<close> on at which \<open>searchValue\<close> occurs, or none (the spec's \<open>-1\<close>).
\<close>

function string_index_of :: "js_string \<Rightarrow> js_string \<Rightarrow> nat \<Rightarrow> nat option" where
  "string_index_of s pat i =
     (if length s < i + length pat then None
      else if take (length pat) (drop i s) = pat then Some i
      else string_index_of s pat (Suc i))"
  by pat_completeness auto
termination
  by (relation "measure (\<lambda>(s, pat, i). Suc (length s) - i)") auto

declare string_index_of.simps [simp del]

text \<open>
  \<open>s.replace(pat, rep)\<close> (ECMA-262, String.prototype.replace, string search value):
  only the first occurrence is replaced.  The replacement is taken literally, which is
  \<open>GetSubstitution\<close> for a replacement without \<^verbatim>\<open>$\<close>, as in the source
  (\<^verbatim>\<open>''\<close>).
\<close>

definition js_replace :: "js_string \<Rightarrow> js_string \<Rightarrow> js_string \<Rightarrow> js_string" where
  "js_replace s pat rep =
     (case string_index_of s pat 0 of
        None \<Rightarrow> s
      | Some p \<Rightarrow> take p s @ rep @ drop (p + length pat) s)"

text \<open>The same operation as a single left-to-right scan.\<close>

fun replace_first :: "js_string \<Rightarrow> js_string \<Rightarrow> js_string \<Rightarrow> js_string" where
  "replace_first pat rep [] = (if pat = [] then rep else [])"
| "replace_first pat rep (c # cs) =
     (if prefix pat (c # cs) then rep @ drop (length pat) (c # cs)
      else c # replace_first pat rep cs)"

section \<open>Objects as property lists\<close>

text \<open>
  An ordinary object with string-keyed data properties, as the handler receives the
  \<^verbatim>\<open>messages\<close> map of a conversation: the properties in creation order, keys distinct.
\<close>

type_synonym 'v js_object = "(js_string \<times> 'v) list"

definition obj_wf :: "'v js_object \<Rightarrow> bool" where
  "obj_wf obj \<longleftrightarrow> distinct (map fst obj)"

text \<open>\<^verbatim>\<open>obj[k]\<close>\<close>

definition obj_get :: "'v js_object \<Rightarrow> js_string \<Rightarrow> 'v js_opt" where
  "obj_get obj k = map_of obj k"

text \<open>
  \<^verbatim>\<open>obj[k] = v\<close>: an existing property keeps its place, a new one is created last.
\<close>

fun obj_set :: "'v js_object \<Rightarrow> js_string \<Rightarrow> 'v \<Rightarrow> 'v js_object" where
  "obj_set [] k v = [(k, v)]"
| "obj_set ((k', v') # ps) k v =
     (if k' = k then (k, v) # ps else (k', v') # obj_set ps k v)"

text \<open>An object built by assigning entries one after another, as a decoder of a map does.\<close>

definition obj_of_entries :: "(js_string \<times> 'v) list \<Rightarrow> 'v js_object" where
  "obj_of_entries es = fold (\<lambda>(k, v) obj. obj_set obj k v) es []"

subsection \<open>Property keys and their order\<close>

definition is_digit_char :: "char \<Rightarrow> bool" where
  "is_digit_char c \<longleftrightarrow> (48::nat) \<le> of_char c \<and> of_char c \<le> (57::nat)"

definition digits_value :: "js_string \<Rightarrow> nat" where
  "digits_value s = foldl (\<lambda>n c. 10 * n + (of_char c - 48)) 0 s"

text \<open>
  An array index (ECMA-262 6.1.7): a canonical numeric string whose value is an integer
  below \<open>2^32 - 1\<close>.  Canonical means no leading zero unless the string is \<^verbatim>\<open>0\<close>.
\<close>

definition is_array_index :: "js_string \<Rightarrow> bool" where
  "is_array_index s \<longleftrightarrow>
     s \<noteq> [] \<and> list_all is_digit_char s \<and> (s = ''0'' \<or> hd s \<noteq> CHR ''0'') \<and>
     digits_value s < 2 ^ 32 - 1"

text \<open>
  \<^verbatim>\<open>Object.keys(obj)\<close> (ECMA-262 \<open>OrdinaryOwnPropertyKeys\<close>): array-index keys first in
  ascending numeric order, then the other string keys in creation order.
\<close>

definition object_keys :: "'v js_object \<Rightarrow> js_string list" where
  "object_keys obj =
     (let ks = map fst obj
      in sort_key digits_value (filter is_array_index ks) @ filter (\<lambda>k. \<not> is_array_index k) ks)"

subsection \<open>Facts about the search\<close>

lemma string_index_of_Cons_shift:
  "string_index_of (c # cs) pat (Suc i) = map_option Suc (string_index_of cs pat i)"
proof (induction cs pat i rule: string_index_of.induct)
  case (1 cs pat i)
  show ?case
    using "1.IH"
    by (subst (1 2) string_index_of.simps) simp
qed

lemma string_index_of_Cons_0:
  "string_index_of (c # cs) pat 0 =
     (if prefix pat (c # cs) then Some 0
      else map_option Suc (string_index_of cs pat 0))"
proof (cases "prefix pat (c # cs)")
  case True
  then have "length pat \<le> Suc (length cs)"
    using prefix_length_le by fastforce
  with True show ?thesis
    by (subst string_index_of.simps) (simp add: prefix_take_length)
next
  case False
  have short: "string_index_of cs pat 0 = None" if "Suc (length cs) < length pat"
    using that by (subst string_index_of.simps) simp
  show ?thesis
    using False short string_index_of_Cons_shift [of c cs pat 0]
    by (subst string_index_of.simps) (auto simp: prefix_take_length)
qed

lemma string_index_of_Some_iff:
  "string_index_of s pat i = Some p \<longleftrightarrow>
     i \<le> p \<and> p + length pat \<le> length s \<and> take (length pat) (drop p s) = pat \<and>
     (\<forall>q. i \<le> q \<and> q < p \<longrightarrow> take (length pat) (drop q s) \<noteq> pat)"
proof (induction s pat i rule: string_index_of.induct)
  case (1 s pat i)
  show ?case
  proof (cases "length s < i + length pat")
    case True
    then show ?thesis by (subst string_index_of.simps) auto
  next
    case outside: False
    show ?thesis
    proof (cases "take (length pat) (drop i s) = pat")
      case True
      with outside show ?thesis
        by (subst string_index_of.simps) (auto simp: order.order_iff_strict)
    next
      case False
      have step: "string_index_of s pat i = string_index_of s pat (Suc i)"
        using outside False by (subst string_index_of.simps) simp
      have "(i \<le> p \<and> p + length pat \<le> length s \<and> take (length pat) (drop p s) = pat \<and>
              (\<forall>q. i \<le> q \<and> q < p \<longrightarrow> take (length pat) (drop q s) \<noteq> pat)) \<longleftrightarrow>
            (Suc i \<le> p \<and> p + length pat \<le> length s \<and> take (length pat) (drop p s) = pat \<and>
              (\<forall>q. Suc i \<le> q \<and> q < p \<longrightarrow> take (length pat) (drop q s) \<noteq> pat))"
        (is "?L \<longleftrightarrow> ?R")
      proof
        assume ?L
        then show ?R using False by (metis Suc_leI le_neq_implies_less Suc_leD)
      next
        assume ?R
        then show ?L using False by (metis Suc_leD le_antisym not_less_eq_eq)
      qed
      with step outside False "1.IH" show ?thesis by simp
    qed
  qed
qed

lemma replace_first_eq_js_replace:
  "replace_first pat rep s = js_replace s pat rep"
proof (induction s)
  case Nil
  show ?case
    by (simp add: js_replace_def string_index_of.simps)
next
  case (Cons c cs)
  show ?case
  proof (cases "prefix pat (c # cs)")
    case True
    then show ?thesis
      by (simp add: js_replace_def string_index_of_Cons_0)
  next
    case False
    then show ?thesis
      using Cons.IH
      by (auto simp: js_replace_def string_index_of_Cons_0 split: option.splits)
  qed
qed

lemma js_replace_prefix:
  "js_replace (pat @ v) pat rep = rep @ v"
proof -
  have "string_index_of (pat @ v) pat 0 = Some 0"
    by (simp add: string_index_of_Some_iff)
  then show ?thesis by (simp add: js_replace_def)
qed

subsection \<open>Facts about objects and their keys\<close>

lemma obj_set_keys:
  "map fst (obj_set obj k v) =
     (if k \<in> set (map fst obj) then map fst obj else map fst obj @ [k])"
proof (induction obj)
  case Nil
  then show ?case by simp
next
  case (Cons p ps)
  then show ?case by (cases p) (auto simp: image_iff)
qed

lemma obj_wf_set: "obj_wf obj \<Longrightarrow> obj_wf (obj_set obj k v)"
  by (simp add: obj_wf_def obj_set_keys)

lemma map_of_obj_set: "map_of (obj_set obj k v) = (map_of obj)(k \<mapsto> v)"
  by (induction obj) (auto simp: fun_eq_iff)

lemma obj_get_set:
  "obj_get (obj_set obj k v) k' = (if k' = k then Some v else obj_get obj k')"
  by (simp add: obj_get_def map_of_obj_set)

lemma map_of_fold_obj_set:
  "map_of (fold (\<lambda>(k, v) obj. obj_set obj k v) es obj) = map_of obj ++ map_of (rev es)"
  by (induction es arbitrary: obj) (auto simp: map_of_obj_set map_add_assoc)

lemma obj_wf_fold_obj_set:
  "obj_wf obj \<Longrightarrow> obj_wf (fold (\<lambda>(k, v) obj. obj_set obj k v) es obj)"
  by (induction es arbitrary: obj) (auto simp: obj_wf_set)

lemma obj_wf_of_entries: "obj_wf (obj_of_entries es)"
  unfolding obj_of_entries_def by (rule obj_wf_fold_obj_set) (simp add: obj_wf_def)

lemma obj_get_of_entries: "obj_get (obj_of_entries es) k = map_of (rev es) k"
  by (simp add: obj_of_entries_def obj_get_def map_of_fold_obj_set)

lemma mset_object_keys: "mset (object_keys obj) = mset (map fst obj)"
proof -
  have "mset (filter is_array_index ks) + mset (filter (\<lambda>k. \<not> is_array_index k) ks) = mset ks"
    for ks :: "js_string list"
    by (induction ks) auto
  then show ?thesis by (simp add: object_keys_def Let_def)
qed

lemma set_object_keys: "set (object_keys obj) = fst ` set obj"
  by (metis mset_object_keys set_mset_mset list.set_map)

lemma distinct_object_keys: "obj_wf obj \<Longrightarrow> distinct (object_keys obj)"
  by (simp add: obj_wf_def mset_eq_imp_distinct_iff [OF mset_object_keys])

lemma object_keys_no_index:
  "\<forall>k \<in> fst ` set obj. \<not> is_array_index k \<Longrightarrow> object_keys obj = map fst obj"
proof -
  assume none: "\<forall>k \<in> fst ` set obj. \<not> is_array_index k"
  then have "filter is_array_index (map fst obj) = []"
    by (auto simp: filter_empty_conv)
  moreover have "filter (\<lambda>k. \<not> is_array_index k) (map fst obj) = map fst obj"
    using none by (auto simp: filter_id_conv)
  ultimately show ?thesis by (simp add: object_keys_def)
qed

lemma object_keys_all_index:
  "\<forall>k \<in> fst ` set obj. is_array_index k \<Longrightarrow> object_keys obj = sort_key digits_value (map fst obj)"
  by (simp add: object_keys_def filter_id_conv filter_empty_conv)

lemma object_keys_index_sorted:
  "sorted (map digits_value (filter is_array_index (object_keys obj)))"
proof -
  have "filter is_array_index (object_keys obj) =
          sort_key digits_value (filter is_array_index (map fst obj))"
    by (simp add: object_keys_def Let_def filter_id_conv filter_empty_conv)
  then show ?thesis by (simp add: sorted_sort_key)
qed

lemma object_keys_other_order:
  "filter (\<lambda>k. \<not> is_array_index k) (object_keys obj) =
     filter (\<lambda>k. \<not> is_array_index k) (map fst obj)"
  by (simp add: object_keys_def Let_def filter_empty_conv)

lemma last_object_keys:
  "\<exists>k \<in> fst ` set obj. \<not> is_array_index k \<Longrightarrow>
     last (object_keys obj) = last (filter (\<lambda>k. \<not> is_array_index k) (map fst obj))"
  by (simp add: object_keys_def filter_empty_conv Let_def)

end
