(* ===== verification/Effects.thy ===== *)
theory Effects
  imports JsRuntime
begin

text \<open>
  The interface between the handler and the host platform: the data the host hands to the
  handler (the generated types of \<^verbatim>\<open>@devvit/protos\<close> that \<^verbatim>\<open>src/src/main.tsx\<close> reads),
  the observable effects of one invocation (host calls and log lines) as a trace, the host
  as a record of answers to those calls, and the effect monad in which the handler is
  written: a state monad over the trace with JavaScript exceptions as \<open>Inl\<close> values.
  \<^verbatim>\<open>await\<close> of a host call is one step of this monad that appends the call to the
  trace and continues with the host's answer or throws its rejection.
\<close>

section \<open>Data received from the host\<close>

text \<open>Only the fields the handler reads are kept; every one of them is optional in the protos.\<close>

record user_data =
  name :: "js_string js_opt"

record message_data =
  author :: "user_data js_opt"
  bodyMarkdown :: "js_string js_opt"
  participatingAs :: "js_string js_opt"

record conversation_data =
  subject :: "js_string js_opt"
  messages :: "message_data js_object"

record get_conversation_response =
  conversation :: "conversation_data js_opt"

text \<open>The \<^verbatim>\<open>OnTriggerEvent<ModMail>\<close> payload; the handler reads only the conversation id.\<close>

record modmail_event =
  conversationId :: "js_string js_opt"

section \<open>HTTP\<close>

record http_request =
  req_method :: js_string
  req_headers :: "(js_string \<times> js_string) list"
  req_body :: js_string

record http_response =
  status :: nat

text \<open>\<^verbatim>\<open>response.ok\<close> (Fetch standard): the status is in the range 200 to 299.\<close>

definition response_ok :: "http_response \<Rightarrow> bool" where
  "response_ok r \<longleftrightarrow> 200 \<le> status r \<and> status r \<le> 299"

section \<open>Observable effects\<close>

text \<open>An argument of \<^verbatim>\<open>console.error\<close>: a string or \<^verbatim>\<open>undefined\<close>.\<close>

datatype log_arg = LStr js_string | LUndefined

fun log_value :: "js_string js_opt \<Rightarrow> log_arg" where
  "log_value None = LUndefined"
| "log_value (Some s) = LStr s"

datatype effect =
    Settings_get js_string                 \<comment> \<open>\<^verbatim>\<open>context.settings.get(key)\<close>\<close>
  | Get_conversation js_string bool        \<comment> \<open>\<^verbatim>\<open>context.reddit.modMail.getConversation\<close>\<close>
  | Http_fetch js_string http_request      \<comment> \<open>\<^verbatim>\<open>fetch(url, init)\<close>\<close>
  | Console_error "log_arg list"            \<comment> \<open>\<^verbatim>\<open>console.error(...)\<close>\<close>

type_synonym trace = "effect list"

text \<open>
  The host, as the \<^verbatim>\<open>TriggerContext\<close> passed to the handler gives access to it: its
  answer (or rejection) to each call.
\<close>

record host =
  h_settings_get :: "js_string \<Rightarrow> js_thrown + js_string js_opt"
  h_get_conversation :: "js_string \<Rightarrow> bool \<Rightarrow> js_thrown + get_conversation_response"
  h_fetch :: "js_string \<Rightarrow> http_request \<Rightarrow> js_thrown + http_response"

section \<open>The effect monad\<close>

type_synonym 'a act = "trace \<Rightarrow> (js_thrown + 'a) \<times> trace"

definition act_return :: "'a \<Rightarrow> 'a act" where
  "act_return x = (\<lambda>tr. (Inr x, tr))"

definition act_throw :: "js_thrown \<Rightarrow> 'a act" where
  "act_throw e = (\<lambda>tr. (Inl e, tr))"

text \<open>Sequencing: an exception skips the rest, as it unwinds an \<^verbatim>\<open>async\<close> function.\<close>

definition act_bind :: "'a act \<Rightarrow> ('a \<Rightarrow> 'b act) \<Rightarrow> 'b act" where
  "act_bind m f = (\<lambda>tr. case m tr of (Inl e, tr') \<Rightarrow> (Inl e, tr') | (Inr x, tr') \<Rightarrow> f x tr')"

text \<open>\<^verbatim>\<open>try { m } catch (error) { h(error) }\<close>\<close>

definition act_catch :: "'a act \<Rightarrow> (js_thrown \<Rightarrow> 'a act) \<Rightarrow> 'a act" where
  "act_catch m h = (\<lambda>tr. case m tr of (Inl e, tr') \<Rightarrow> h e tr' | (Inr x, tr') \<Rightarrow> (Inr x, tr'))"

text \<open>A synchronous step that may throw, such as reading \<^verbatim>\<open>error.message\<close>.\<close>

definition act_lift :: "js_thrown + 'a \<Rightarrow> 'a act" where
  "act_lift r = (\<lambda>tr. (r, tr))"

text \<open>\<^verbatim>\<open>await\<close> of a host call: the call is observed, then the answer is used.\<close>

definition act_await :: "effect \<Rightarrow> js_thrown + 'a \<Rightarrow> 'a act" where
  "act_await eff r = (\<lambda>tr. (r, tr @ [eff]))"

definition console_error :: "log_arg list \<Rightarrow> unit act" where
  "console_error args = (\<lambda>tr. (Inr (), tr @ [Console_error args]))"

definition settings_get :: "host \<Rightarrow> js_string \<Rightarrow> js_string js_opt act" where
  "settings_get ctx k = act_await (Settings_get k) (h_settings_get ctx k)"

definition get_conversation :: "host \<Rightarrow> js_string \<Rightarrow> bool \<Rightarrow> get_conversation_response act" where
  "get_conversation ctx cid mark = act_await (Get_conversation cid mark) (h_get_conversation ctx cid mark)"

definition http_fetch :: "host \<Rightarrow> js_string \<Rightarrow> http_request \<Rightarrow> http_response act" where
  "http_fetch ctx url req = act_await (Http_fetch url req) (h_fetch ctx url req)"

text \<open>The outbound HTTP requests of a trace.\<close>

fun is_http_fetch :: "effect \<Rightarrow> bool" where
  "is_http_fetch (Http_fetch u q) = True"
| "is_http_fetch _ = False"

lemmas act_defs = act_return_def act_throw_def act_bind_def act_catch_def act_lift_def
  act_await_def console_error_def settings_get_def get_conversation_def http_fetch_def

subsection \<open>Monad laws\<close>

lemma act_bind_return [act_simps]: "act_bind (act_return x) f = f x"
  by (simp add: act_bind_def act_return_def)

lemma act_bind_throw [act_simps]: "act_bind (act_throw e) f = act_throw e"
  by (simp add: act_bind_def act_throw_def)

lemma act_bind_return_right [act_simps]: "act_bind m act_return = m"
  by (auto simp: act_bind_def act_return_def fun_eq_iff split: prod.splits sum.splits)

lemma act_bind_assoc [act_simps]:
  "act_bind (act_bind m f) g = act_bind m (\<lambda>x. act_bind (f x) g)"
  by (auto simp: act_bind_def fun_eq_iff split: prod.splits sum.splits)

lemma act_catch_return [act_simps]: "act_catch (act_return x) h = act_return x"
  by (simp add: act_catch_def act_return_def)

lemma act_catch_throw [act_simps]: "act_catch (act_throw e) h = h e"
  by (simp add: act_catch_def act_throw_def)

lemma act_lift_Inl [act_simps]: "act_lift (Inl e) = act_throw e"
  and act_lift_Inr [act_simps]: "act_lift (Inr x) = act_return x"
  by (simp_all add: act_lift_def act_throw_def act_return_def)

end
