(* ===== verification/Devvit.thy ===== *)
theory Devvit
  imports Effects
begin

text \<open>
  The app wiring of \<^verbatim>\<open>src/src/main.tsx\<close> around the handler: the capabilities requested
  with \<^verbatim>\<open>Devvit.configure\<close>, the installation settings declared with
  \<^verbatim>\<open>Devvit.addSettings\<close>, and which host call each capability permits.  The handler
  registered with \<^verbatim>\<open>Devvit.addTrigger\<close> is in theory \<open>Relay\<close>.
\<close>

section \<open>Capabilities\<close>

record devvit_config =
  cfg_http :: bool
  cfg_redditAPI :: bool

text \<open>\<^verbatim>\<open>Devvit.configure({ http: true, redditAPI: true })\<close>\<close>

definition app_config :: devvit_config where
  "app_config = \<lparr>cfg_http = True, cfg_redditAPI = True\<rparr>"

text \<open>
  The capability a host call needs: \<^verbatim>\<open>fetch\<close> needs \<^verbatim>\<open>http\<close>, the mod-mail API needs
  \<^verbatim>\<open>redditAPI\<close>; settings and the console are always available.
\<close>

fun effect_permitted :: "devvit_config \<Rightarrow> effect \<Rightarrow> bool" where
  "effect_permitted cfg (Http_fetch u q) = cfg_http cfg"
| "effect_permitted cfg (Get_conversation c b) = cfg_redditAPI cfg"
| "effect_permitted cfg (Settings_get k) = True"
| "effect_permitted cfg (Console_error args) = True"

section \<open>Installation settings\<close>

datatype setting_type = String_setting | Paragraph_setting | Number_setting | Boolean_setting
  | Select_setting

record setting_decl =
  setting_type :: setting_type
  setting_name :: js_string
  setting_label :: js_string

text \<open>\<^verbatim>\<open>Devvit.addSettings([{ type: 'string', name: 'webhook', label: 'Webhook URL' }])\<close>\<close>

definition app_settings :: "setting_decl list" where
  "app_settings =
     [\<lparr>setting_type = String_setting, setting_name = ''webhook'', setting_label = ''Webhook URL''\<rparr>]"

definition declared_string_setting :: "setting_decl list \<Rightarrow> js_string \<Rightarrow> bool" where
  "declared_string_setting decls k \<longleftrightarrow>
     (\<exists>d \<in> set decls. setting_name d = k \<and> setting_type d = String_setting)"

end
