(* ===== verification/Json.thy ===== *)
theory Json
  imports JsRuntime
begin

text \<open>
  JSON values and \<^verbatim>\<open>JSON.stringify\<close> (ECMA-262 \<open>SerializeJSONProperty\<close>,
  \<open>QuoteJSONString\<close>, \<open>SerializeJSONObject\<close>, \<open>SerializeJSONArray\<close>, without an
  indentation argument), as used to encode the webhook body.  Only the kinds of value the
  handler builds are modelled (strings, arrays, objects) together with \<^verbatim>\<open>null\<close> and
  booleans; numbers do not occur in the payload.
\<close>

datatype json =
    JNull
  | JBool bool
  | JString js_string
  | JArray "json list"
  | JObject "json js_object"

section \<open>Strings\<close>

definition dq :: char where "dq = CHR 0x22"
definition bs :: char where "bs = CHR 0x5C"

text \<open>Lower-case hexadecimal digit, as \<open>UnicodeEscape\<close> prints it.\<close>

definition hex_digit :: "nat \<Rightarrow> char" where
  "hex_digit n = (if n < 10 then char_of (48 + n) else char_of (87 + n))"

text \<open>The escape table of \<open>QuoteJSONString\<close>, one code unit at a time.\<close>

definition json_escape_char :: "char \<Rightarrow> js_string" where
  "json_escape_char c =
     (let n = (of_char c :: nat) in
      if n = 8 then [bs, CHR ''b'']
      else if n = 9 then [bs, CHR ''t'']
      else if n = 10 then [bs, CHR ''n'']
      else if n = 12 then [bs, CHR ''f'']
      else if n = 13 then [bs, CHR ''r'']
      else if n = 34 then [bs, dq]
      else if n = 92 then [bs, bs]
      else if n < 32 then [bs, CHR ''u'', CHR ''0'', CHR ''0'', hex_digit (n div 16), hex_digit (n mod 16)]
      else [c])"

definition json_quote :: "js_string \<Rightarrow> js_string" where
  "json_quote s = dq # concat (map json_escape_char s) @ [dq]"

fun json_join :: "js_string list \<Rightarrow> js_string" where
  "json_join [] = []"
| "json_join [x] = x"
| "json_join (x # xs) = x @ '','' @ json_join xs"

section \<open>Values\<close>

text \<open>
  The properties of an object are serialised in the order of \<^verbatim>\<open>Object.keys\<close>
  (\<open>EnumerableOwnProperties\<close>): the pairs themselves, in that order.
\<close>

definition object_entries :: "'v js_object \<Rightarrow> 'v js_object" where
  "object_entries obj =
     sort_key (\<lambda>p. digits_value (fst p)) (filter (\<lambda>p. is_array_index (fst p)) obj) @
     filter (\<lambda>p. \<not> is_array_index (fst p)) obj"

lemma set_object_entries: "set (object_entries obj) \<subseteq> set obj"
  by (auto simp: object_entries_def)

function json_stringify :: "json \<Rightarrow> js_string" where
  "json_stringify JNull = ''null''"
| "json_stringify (JBool b) = (if b then ''true'' else ''false'')"
| "json_stringify (JString s) = json_quote s"
| "json_stringify (JArray xs) = ''['' @ json_join (map json_stringify xs) @ '']''"
| "json_stringify (JObject ps) =
     ''{'' @ json_join (map (\<lambda>(k, v). json_quote k @ '':'' @ json_stringify v) (object_entries ps)) @ ''}''"
  by pat_completeness auto
termination
proof (relation "measure size")
  fix ps :: "json js_object" and p k v
  assume "p \<in> set (object_entries ps)" and "(k, v) = p"
  then have "(k, v) \<in> set ps" using set_object_entries by blast
  then show "(v, JObject ps) \<in> measure size"
    by (induction ps) auto
qed (auto intro: le_imp_less_Suc size_list_estimation')


section \<open>A reference decoder\<close>

text \<open>
  \<^verbatim>\<open>JSON.parse\<close> (ECMA-262 25.5.1, RFC 8259) restricted to the values above, written as a
  recursive-descent parser with explicit fuel so that it is executable and total.  It is
  the decoder a webhook receiver applies to the request body; the round-trip lemma below
  says it recovers every value whose object keys are not array indexes, whose order
  \<^verbatim>\<open>JSON.stringify\<close> keeps.  The \<open>\u\<close> escape is decoded for code units below 256,
  which is the range \<open>QuoteJSONString\<close> produces.
\<close>

definition hex_value :: "char \<Rightarrow> nat option" where
  "hex_value c =
     (let n = (of_char c :: nat) in
      if 48 \<le> n \<and> n \<le> 57 then Some (n - 48)
      else if 97 \<le> n \<and> n \<le> 102 then Some (n - 87)
      else if 65 \<le> n \<and> n \<le> 70 then Some (n - 55)
      else None)"

definition unicode_escape :: "js_string \<Rightarrow> char option" where
  "unicode_escape hs =
     (case map hex_value hs of
        [Some a, Some b, Some c, Some d] \<Rightarrow>
          (let v = ((a * 16 + b) * 16 + c) * 16 + d in if v < 256 then Some (char_of v) else None)
      | _ \<Rightarrow> None)"

definition simple_escape :: "char \<Rightarrow> char option" where
  "simple_escape e =
     (let n = (of_char e :: nat) in
      if n = 34 then Some dq else if n = 92 then Some bs else if n = 47 then Some (CHR ''/'')
      else if e = CHR ''b'' then Some (char_of (8::nat)) else if e = CHR ''f'' then Some (char_of (12::nat))
      else if e = CHR ''n'' then Some (char_of (10::nat)) else if e = CHR ''r'' then Some (char_of (13::nat))
      else if e = CHR ''t'' then Some (char_of (9::nat)) else None)"

fun parse_string_body :: "js_string \<Rightarrow> (js_string \<times> js_string) option" where
  "parse_string_body [] = None"
| "parse_string_body (c # r) =
     (if c = dq then Some ([], r)
      else if c = bs then
        (case r of
           [] \<Rightarrow> None
         | e # r' \<Rightarrow>
             if e = CHR ''u'' then
               (case unicode_escape (take 4 r') of
                  None \<Rightarrow> None
                | Some d \<Rightarrow> map_option (\<lambda>(s, r3). (d # s, r3)) (parse_string_body (drop 4 r')))
             else
               (case simple_escape e of
                  None \<Rightarrow> None
                | Some d \<Rightarrow> map_option (\<lambda>(s, r3). (d # s, r3)) (parse_string_body r')))
      else if of_char c < (32::nat) then None
      else map_option (\<lambda>(s, r'). (c # s, r')) (parse_string_body r))"

fun parse_value :: "nat \<Rightarrow> js_string \<Rightarrow> (json \<times> js_string) option"
and parse_elems :: "nat \<Rightarrow> js_string \<Rightarrow> (json list \<times> js_string) option"
and parse_members :: "nat \<Rightarrow> js_string \<Rightarrow> (json js_object \<times> js_string) option" where
  "parse_value 0 s = None"
| "parse_value (Suc n) s =
     (if take 4 s = ''null'' then Some (JNull, drop 4 s)
      else if take 4 s = ''true'' then Some (JBool True, drop 4 s)
      else if take 5 s = ''false'' then Some (JBool False, drop 5 s)
      else case s of
        [] \<Rightarrow> None
      | c # r \<Rightarrow>
          if c = dq then map_option (\<lambda>(str, r'). (JString str, r')) (parse_string_body r)
          else if c = CHR ''['' then
            (if take 1 r = '']'' then Some (JArray [], drop 1 r)
             else map_option (\<lambda>(xs, r'). (JArray xs, r')) (parse_elems n r))
          else if c = CHR ''{'' then
            (if take 1 r = ''}'' then Some (JObject [], drop 1 r)
             else map_option (\<lambda>(ps, r'). (JObject ps, r')) (parse_members n r))
          else None)"
| "parse_elems 0 s = None"
| "parse_elems (Suc n) s =
     (case parse_value n s of
        None \<Rightarrow> None
      | Some (v, r) \<Rightarrow>
          (case r of
             [] \<Rightarrow> None
           | c # r' \<Rightarrow>
               if c = CHR '','' then map_option (\<lambda>(vs, r''). (v # vs, r'')) (parse_elems n r')
               else if c = CHR '']'' then Some ([v], r') else None))"
| "parse_members 0 s = None"
| "parse_members (Suc n) s =
     (case s of
        [] \<Rightarrow> None
      | c # r \<Rightarrow>
          if c \<noteq> dq then None
          else (case parse_string_body r of
                  None \<Rightarrow> None
                | Some (k, r1) \<Rightarrow>
                    if take 1 r1 \<noteq> '':'' then None
                    else (case parse_value n (drop 1 r1) of
                            None \<Rightarrow> None
                          | Some (v, r3) \<Rightarrow>
                              (case r3 of
                                 [] \<Rightarrow> None
                               | c3 # r4 \<Rightarrow>
                                   if c3 = CHR '','' then
                                     map_option (\<lambda>(ps, r5). ((k, v) # ps, r5)) (parse_members n r4)
                                   else if c3 = CHR ''}'' then Some ([(k, v)], r4) else None))))"

definition json_parse :: "js_string \<Rightarrow> json option" where
  "json_parse s = (case parse_value (Suc (length s)) s of Some (j, []) \<Rightarrow> Some j | _ \<Rightarrow> None)"

text \<open>
  Values whose objects have no array-index key: for them \<^verbatim>\<open>Object.keys\<close> is the
  creation order, so serialisation does not reorder properties.
\<close>

fun json_plain :: "json \<Rightarrow> bool" where
  "json_plain (JArray xs) = list_all json_plain xs"
| "json_plain (JObject ps) = list_all (\<lambda>(k, v). \<not> is_array_index k \<and> json_plain v) ps"
| "json_plain _ = True"

text \<open>
  Reading a decoded value the way a receiver does, e.g. \<^verbatim>\<open>body.embeds[0].title\<close>:
  a property of an object (the last one of that name, as \<^verbatim>\<open>JSON.parse\<close> keeps) or an
  element of an array; \<open>None\<close> where JavaScript would give \<^verbatim>\<open>undefined\<close>.
\<close>

datatype json_step = Field js_string | Index nat

fun json_at :: "json \<Rightarrow> json_step list \<Rightarrow> json option" where
  "json_at j [] = Some j"
| "json_at (JObject ps) (Field k # p) = (case map_of (rev ps) k of None \<Rightarrow> None | Some v \<Rightarrow> json_at v p)"
| "json_at (JArray xs) (Index i # p) = (if i < length xs then json_at (xs ! i) p else None)"
| "json_at _ (_ # p) = None"

definition json_read :: "js_string \<Rightarrow> json_step list \<Rightarrow> json option" where
  "json_read s p = Option.bind (json_parse s) (\<lambda>j. json_at j p)"

section \<open>Facts about the encoding\<close>

lemma hex_value_hex_digit: "k < 16 \<Longrightarrow> hex_value (hex_digit k) = Some k"
  by (auto simp: hex_value_def hex_digit_def of_char_of)

lemma char_eq_code: "(c = d) \<longleftrightarrow> (of_char c :: nat) = of_char d"
  by (simp add: of_char_eq_iff)

lemma hex_value_zero: "hex_value (CHR ''0'') = Some 0"
  by (simp add: hex_value_def)

lemma unicode_escape_small:
  assumes "n < 32"
  shows "unicode_escape [CHR ''0'', CHR ''0'', hex_digit (n div 16), hex_digit (n mod 16)] =
     Some (char_of n)"
proof -
  have "n div 16 < 16" "n mod 16 < 16" using assms by simp_all
  moreover have "(n div 16) * 16 + n mod 16 = n" by simp
  ultimately show ?thesis
    using assms by (simp add: unicode_escape_def hex_value_hex_digit hex_value_zero)
qed

lemma char_of_quote_codes: "char_of (34::nat) = CHR 0x22" "char_of (92::nat) = CHR 0x5C"
  by (simp_all add: char_eq_code of_char_of)

lemma parse_escape_char:
  "parse_string_body (json_escape_char c @ r) =
     map_option (\<lambda>(s, r'). (c # s, r')) (parse_string_body r)"
proof -
  define n where "n = (of_char c :: nat)"
  have c: "c = char_of n" by (simp add: n_def)
  have n256: "n < 256" by (simp add: n_def)
  show ?thesis
  proof (cases "n < 32 \<or> n = 34 \<or> n = 92")
    case False
    then have "json_escape_char c = [c]"
      by (auto simp: json_escape_char_def n_def[symmetric])
    moreover have "c \<noteq> dq" "c \<noteq> bs" "\<not> of_char c < (32::nat)"
      using False by (auto simp: c dq_def bs_def char_eq_code of_char_of n256)
    ultimately show ?thesis by simp
  next
    case True
    then show ?thesis
      apply (auto simp: json_escape_char_def n_def[symmetric] c dq_def bs_def simple_escape_def
          unicode_escape_small Let_def of_char_of char_eq_code char_of_quote_codes)
      done
  qed
qed

lemma parse_quoted:
  "parse_string_body (concat (map json_escape_char s) @ dq # r) = Some (s, r)"
  by (induction s) (simp_all add: parse_escape_char dq_def)

lemma object_entries_no_index:
  "\<forall>p \<in> set ps. \<not> is_array_index (fst p) \<Longrightarrow> object_entries ps = ps"
  by (simp add: object_entries_def filter_empty_conv filter_id_conv)

lemma json_stringify_first:
  "\<exists>c t. json_stringify j = c # t \<and> c \<noteq> CHR '']'' \<and> c \<noteq> CHR ''}''"
  by (cases j) (auto simp: json_quote_def dq_def)

lemma take1_not_close:
  assumes "xs \<noteq> []"
  shows "take 1 (json_join (map json_stringify xs) @ r) \<noteq> '']''"
proof -
  obtain x xs' where xs: "xs = x # xs'" using assms by (cases xs) auto
  obtain c t where "json_stringify x = c # t" "c \<noteq> CHR '']''"
    using json_stringify_first by blast
  then show ?thesis using xs by (cases xs') auto
qed

lemma take1_member_not_close:
  assumes "ps \<noteq> []"
  shows "take 1 (json_join (map (\<lambda>(k, v). json_quote k @ '':'' @ json_stringify v) ps) @ r) \<noteq> ''}''"
proof -
  obtain p ps' where ps: "ps = p # ps'" using assms by (cases ps) auto
  then show ?thesis by (cases ps') (auto simp: json_quote_def dq_def split: prod.splits)
qed

text \<open>
  One level of the decoder: given that fuel \<open>n\<close> decodes values, element lists and member
  lists smaller than \<open>n\<close>, fuel \<open>n + 1\<close> decodes the next level.
\<close>

lemma parse_value_stringify_Suc:
  assumes elems: "\<And>xs rest. xs \<noteq> [] \<Longrightarrow> size_list size xs < n \<Longrightarrow> list_all json_plain xs \<Longrightarrow>
      parse_elems n (json_join (map json_stringify xs) @ '']'' @ rest) = Some (xs, rest)"
    and members: "\<And>ps rest. ps \<noteq> [] \<Longrightarrow> size_list (size_prod (\<lambda>_. 0) size) ps < n \<Longrightarrow>
      list_all (\<lambda>(k, v). \<not> is_array_index k \<and> json_plain v) ps \<Longrightarrow>
      parse_members n (json_join (map (\<lambda>(k, v). json_quote k @ '':'' @ json_stringify v) ps)
        @ ''}'' @ rest) = Some (ps, rest)"
    and "size j < Suc n" and "json_plain j"
  shows "parse_value (Suc n) (json_stringify j @ rest) = Some (j, rest)"
proof (cases j)
  case (JString s)
  then show ?thesis by (simp add: json_quote_def dq_def parse_quoted [unfolded dq_def])
next
  case (JArray xs)
  show ?thesis
  proof (cases "xs = []")
    case True
    with JArray show ?thesis by (simp add: dq_def)
  next
    case False
    with JArray assms(3,4) elems [of xs rest] take1_not_close [OF False] show ?thesis
      by (auto simp: dq_def)
  qed
next
  case (JObject ps)
  have ent: "object_entries ps = ps"
    using assms(4) JObject by (intro object_entries_no_index) (auto simp: list_all_iff)
  show ?thesis
  proof (cases "ps = []")
    case True
    with JObject show ?thesis by (simp add: object_entries_def dq_def)
  next
    case False
    with JObject assms(3,4) members [of ps rest] ent take1_member_not_close [OF False] show ?thesis
      by (auto simp: dq_def)
  qed
qed (auto simp: json_quote_def dq_def)

lemma parse_elems_stringify_Suc:
  assumes val: "\<And>j rest. size j < n \<Longrightarrow> json_plain j \<Longrightarrow>
      parse_value n (json_stringify j @ rest) = Some (j, rest)"
    and elems: "\<And>xs rest. xs \<noteq> [] \<Longrightarrow> size_list size xs < n \<Longrightarrow> list_all json_plain xs \<Longrightarrow>
      parse_elems n (json_join (map json_stringify xs) @ '']'' @ rest) = Some (xs, rest)"
    and "x # xs \<noteq> []" and sz: "size_list size (x # xs) < Suc n" and pl: "list_all json_plain (x # xs)"
  shows "parse_elems (Suc n) (json_join (map json_stringify (x # xs)) @ '']'' @ rest) = Some (x # xs, rest)"
proof (cases "xs = []")
  case True
  with sz pl val show ?thesis by auto
next
  case False
  then have "parse_elems n (json_join (map json_stringify xs) @ '']'' @ rest) = Some (xs, rest)"
    using elems sz pl by simp
  with False sz pl val show ?thesis by (cases xs) auto
qed

lemma parse_members_stringify_Suc:
  assumes val: "\<And>j rest. size j < n \<Longrightarrow> json_plain j \<Longrightarrow>
      parse_value n (json_stringify j @ rest) = Some (j, rest)"
    and members: "\<And>ps rest. ps \<noteq> [] \<Longrightarrow> size_list (size_prod (\<lambda>_. 0) size) ps < n \<Longrightarrow>
      list_all (\<lambda>(k, v). \<not> is_array_index k \<and> json_plain v) ps \<Longrightarrow>
      parse_members n (json_join (map (\<lambda>(k, v). json_quote k @ '':'' @ json_stringify v) ps)
        @ ''}'' @ rest) = Some (ps, rest)"
    and sz: "size_list (size_prod (\<lambda>_. 0) size) ((k, v) # ps) < Suc n"
    and pl: "list_all (\<lambda>(k, v). \<not> is_array_index k \<and> json_plain v) ((k, v) # ps)"
  shows "parse_members (Suc n)
      (json_join (map (\<lambda>(k, v). json_quote k @ '':'' @ json_stringify v) ((k, v) # ps)) @ ''}'' @ rest) =
      Some ((k, v) # ps, rest)"
proof (cases "ps = []")
  case True
  with sz pl val show ?thesis
    by (auto simp: json_quote_def dq_def parse_quoted [unfolded dq_def])
next
  case False
  then have "parse_members n (json_join (map (\<lambda>(k, v). json_quote k @ '':'' @ json_stringify v) ps)
      @ ''}'' @ rest) = Some (ps, rest)"
    using members sz pl by simp
  with False sz pl val show ?thesis
    by (cases ps) (auto simp: json_quote_def dq_def parse_quoted [unfolded dq_def])
qed

lemma parse_roundtrip_fuel:
  "(\<forall>j rest. size j < n \<longrightarrow> json_plain j \<longrightarrow>
      parse_value n (json_stringify j @ rest) = Some (j, rest)) \<and>
   (\<forall>xs rest. xs \<noteq> [] \<longrightarrow> size_list size xs < n \<longrightarrow> list_all json_plain xs \<longrightarrow>
      parse_elems n (json_join (map json_stringify xs) @ '']'' @ rest) = Some (xs, rest)) \<and>
   (\<forall>ps rest. ps \<noteq> [] \<longrightarrow> size_list (size_prod (\<lambda>_. 0) size) ps < n \<longrightarrow>
      list_all (\<lambda>(k, v). \<not> is_array_index k \<and> json_plain v) ps \<longrightarrow>
      parse_members n (json_join (map (\<lambda>(k, v). json_quote k @ '':'' @ json_stringify v) ps)
        @ ''}'' @ rest) = Some (ps, rest))"
proof (induction n)
  case 0
  then show ?case by simp
next
  case (Suc n)
  note val = Suc.IH [THEN conjunct1, rule_format]
  note elems = Suc.IH [THEN conjunct2, THEN conjunct1, rule_format]
  note members = Suc.IH [THEN conjunct2, THEN conjunct2, rule_format]
  have "parse_elems (Suc n) (json_join (map json_stringify xs) @ '']'' @ rest) = Some (xs, rest)"
    if "xs \<noteq> []" "size_list size xs < Suc n" "list_all json_plain xs" for xs rest
    using that parse_elems_stringify_Suc [OF val elems] by (cases xs) auto
  moreover have "parse_members (Suc n) (json_join (map (\<lambda>(k, v). json_quote k @ '':'' @ json_stringify v) ps)
        @ ''}'' @ rest) = Some (ps, rest)"
    if "ps \<noteq> []" "size_list (size_prod (\<lambda>_. 0) size) ps < Suc n"
      "list_all (\<lambda>(k, v). \<not> is_array_index k \<and> json_plain v) ps" for ps rest
    using that parse_members_stringify_Suc [OF val members] by (cases ps) auto
  ultimately show ?case
    using parse_value_stringify_Suc [OF elems members] by blast
qed

lemma length_json_join: "sum_list (map (\<lambda>s. length s + 1) ss) \<le> length (json_join ss) + 1"
  by (induction ss rule: json_join.induct) auto

lemma size_le_length_stringify: "json_plain j \<Longrightarrow> size j \<le> length (json_stringify j)"
proof (induction j rule: json_stringify.induct)
  case (4 xs)
  have "\<And>x. x \<in> set xs \<Longrightarrow> size x \<le> length (json_stringify x)"
    using "4.IH" "4.prems" by (simp add: list_all_iff)
  then have "size_list size xs \<le> sum_list (map (\<lambda>x. length (json_stringify x) + 1) xs)"
    by (rule size_list_le_sum_list)
  then show ?case
    using length_json_join [of "map json_stringify xs"] by (simp add: comp_def)
next
  case (5 ps)
  have ent: "object_entries ps = ps"
    using "5.prems" by (intro object_entries_no_index) (auto simp: list_all_iff)
  let ?m = "\<lambda>(k, v). json_quote k @ '':'' @ json_stringify v"
  let ?g = "\<lambda>p. length (?m p)"
  have "size_list (size_prod (\<lambda>_. 0) size) ps \<le> sum_list (map (\<lambda>p. ?g p + 1) ps)"
  proof (intro size_list_le_sum_list)
    fix p assume p: "p \<in> set ps"
    obtain k v where kv: "p = (k, v)" by (cases p)
    have "p \<in> set (object_entries ps)" using p ent by simp
    moreover have "json_plain v" using "5.prems" p by (auto simp: kv list_all_iff)
    ultimately have "size v \<le> length (json_stringify v)"
      using "5.IH" [OF _ kv [symmetric]] by blast
    then show "size_prod (\<lambda>_. 0) size p \<le> ?g p" by (simp add: kv json_quote_def)
  qed
  moreover have "sum_list (map (\<lambda>p. ?g p + 1) ps) \<le>
      length (json_join (map ?m ps)) + 1"
    using length_json_join [of "map ?m ps"] by (simp only: map_map comp_def)
  ultimately show ?case by (simp add: ent)
qed (auto simp: json_quote_def)

lemma json_parse_stringify: "json_plain j \<Longrightarrow> json_parse (json_stringify j) = Some j"
proof -
  assume pl: "json_plain j"
  have "size j < Suc (length (json_stringify j))"
    using size_le_length_stringify [OF pl] by simp
  then have "parse_value (Suc (length (json_stringify j))) (json_stringify j @ []) = Some (j, [])"
    using parse_roundtrip_fuel [THEN conjunct1] pl by blast
  then show ?thesis by (simp add: json_parse_def)
qed

end
