(* ===== verification/Relay.thy ===== *)
theory Relay
  imports Devvit Json
begin

text \<open>
  The handler of \<^verbatim>\<open>src/src/main.tsx\<close>: \<^verbatim>\<open>sendModMailToWebhook\<close> (lines 37 to 114) and
  the trigger callback \<^verbatim>\<open>onEvent\<close> registered with \<^verbatim>\<open>Devvit.addTrigger\<close> (lines 19 to
  35), in the effect monad of theory \<open>Effects\<close>.  The pure parts of
  \<^verbatim>\<open>sendModMailToWebhook\<close> are named definitions: the mod-mail link, the selection of
  the latest message, the payload and the request.
\<close>

section \<open>Pure parts of sendModMailToWebhook\<close>

text \<open>
  Lines 48, 49 and 54: \<^verbatim>\<open>event.conversationId ?? ''\<close>, the prefix removed with
  \<^verbatim>\<open>replace\<close>, and the link built from it.
\<close>

definition event_conversation_id :: "modmail_event \<Rightarrow> js_string" where
  "event_conversation_id event = js_coalesce (conversationId event) ''''"

definition modmail_link :: "js_string \<Rightarrow> js_string" where
  "modmail_link cid =
     (let actualConversationId = js_replace cid ''ModmailConversation_'' ''''
      in ''https://mod.reddit.com/mail/all/'' @ actualConversationId)"

text \<open>
  Lines 57 to 60: the messages object (empty when the conversation is missing), its keys
  in \<^verbatim>\<open>Object.keys\<close> order, the last key, and the message under it when that key is
  truthy.
\<close>

definition latest_message :: "get_conversation_response \<Rightarrow> message_data js_opt" where
  "latest_message result =
     (let msgs = js_coalesce (map_option messages (conversation result)) [];
          messageIds = object_keys msgs;
          lastMessageId = (if length messageIds > 0
                           then Some (messageIds ! (length messageIds - 1)) else None)
      in if js_truthy lastMessageId then obj_get msgs (js_coalesce lastMessageId '''')
         else None)"

text \<open>Lines 68 to 71: the fields read from the last message, with their defaults.\<close>

definition message_author_name :: "message_data \<Rightarrow> js_string" where
  "message_author_name m = js_coalesce (Option.bind (author m) name) ''Unknown''"

definition message_body :: "message_data \<Rightarrow> js_string" where
  "message_body m = js_coalesce (bodyMarkdown m) ''''"

definition message_participating_as :: "message_data \<Rightarrow> js_string" where
  "message_participating_as m = js_coalesce (participatingAs m) ''Unknown''"

definition footer_icon_url :: js_string where
  "footer_icon_url = ''https://styles.redditmedia.com/t5_5uplbt/styles/communityIcon_lb7qvrbnl0zc1.png''"

text \<open>Lines 71 to 93: the chat-webhook payload.\<close>

definition build_payload :: "js_string js_opt \<Rightarrow> js_string \<Rightarrow> message_data \<Rightarrow> json" where
  "build_payload subj link m =
     (let authorName = message_author_name m;
          body = message_body m;
          participating = message_participating_as m;
          authorProfileLink = ''https://www.reddit.com/u/'' @ authorName
      in JObject
          [(''content'', JString ''New Modmail received''),
           (''embeds'', JArray
             [JObject
               [(''title'', JString (js_template subj)),
                (''url'', JString link),
                (''author'', JObject
                   [(''name'', JString (''u/'' @ authorName)),
                    (''url'', JString authorProfileLink)]),
                (''description'', JString (''**Body**:'' @ [CHR 0x0A] @ body)),
                (''footer'', JObject
                   [(''text'', JString (''Participating As: '' @ participating)),
                    (''icon_url'', JString footer_icon_url)]),
                (''color'', JString ''5198938'')]])])"

text \<open>Lines 96 to 102: the \<^verbatim>\<open>fetch\<close> options.\<close>

definition webhook_request :: "json \<Rightarrow> http_request" where
  "webhook_request payload =
     \<lparr>req_method = ''POST'', req_headers = [(''Content-Type'', ''application/json'')],
      req_body = json_stringify payload\<rparr>"

section \<open>The handler\<close>

text \<open>
  Both \<^verbatim>\<open>catch\<close> blocks (lines 29 to 33 and 109 to 112) log a fixed prefix and
  \<^verbatim>\<open>error.message\<close>; reading the message of \<^verbatim>\<open>null\<close> or \<^verbatim>\<open>undefined\<close> throws
  out of the \<^verbatim>\<open>catch\<close> block.
\<close>

definition log_error :: "js_string \<Rightarrow> js_thrown \<Rightarrow> unit act" where
  "log_error label error =
     act_bind (act_lift (message_of error)) (\<lambda>msg. console_error [LStr label, log_value msg])"

text \<open>
  \<^verbatim>\<open>sendModMailToWebhook(event, context)\<close>, lines 37 to 114: every \<^verbatim>\<open>await\<close> is a host
  call of the effect monad, every early \<^verbatim>\<open>return\<close> ends the branch, and the whole body is
  inside \<^verbatim>\<open>try\<close>, whose \<^verbatim>\<open>catch\<close> logs \<^verbatim>\<open>error.message\<close>.
\<close>

definition sendModMailToWebhook :: "modmail_event \<Rightarrow> host \<Rightarrow> unit act" where
  "sendModMailToWebhook event context =
     act_catch
      (act_bind (settings_get context ''webhook'') (\<lambda>webhook.
        if \<not> js_truthy webhook then console_error [LStr ''No webhook URL provided'']
        else
          (let cid = event_conversation_id event
           in act_bind (get_conversation context cid False) (\<lambda>result.
                let link = modmail_link cid
                in case latest_message result of
                     None \<Rightarrow> console_error [LStr ''No messages found'']
                   | Some lastMessage \<Rightarrow>
                       let payload = build_payload (Option.bind (conversation result) subject)
                                       link lastMessage
                       in if message_participating_as lastMessage \<noteq> ''moderator''
                          then act_bind
                                 (http_fetch context (js_coalesce webhook '''') (webhook_request payload))
                                 (\<lambda>response.
                                    if \<not> response_ok response
                                    then console_error [LStr ''Error sending data to webhook'']
                                    else act_return ())
                          else act_return ()))))
      (log_error ''Error:'')"

text \<open>
  The trigger callback, lines 19 to 35: \<^verbatim>\<open>context\<close> may be missing (\<open>None\<close>), which
  throws; anything thrown is logged with \<^verbatim>\<open>error.message\<close>.
\<close>

definition onEvent :: "modmail_event \<Rightarrow> host js_opt \<Rightarrow> unit act" where
  "onEvent event context =
     act_catch
      (case context of
         None \<Rightarrow> act_throw (Err_obj ''Error'' ''Context is probably undefined'')
       | Some ctx \<Rightarrow> sendModMailToWebhook event ctx)
      (log_error ''There was an error:'')"

text \<open>The event the trigger is registered for (line 20).\<close>

definition trigger_event :: js_string where
  "trigger_event = ''ModMail''"

section \<open>What one invocation should post\<close>

text \<open>
  The contract of the relay (spec, sections 4.1 and 8), read directly off the host's
  answers: a POST of the latest message to the configured URL exactly when the URL is
  non-empty, the conversation could be fetched, it has a latest message, and that
  message's author does not participate as a moderator; nothing otherwise.
\<close>

definition relay_posts :: "modmail_event \<Rightarrow> host \<Rightarrow> effect list" where
  "relay_posts ev ctx =
     (case h_settings_get ctx ''webhook'' of
        Inr (Some url) \<Rightarrow>
          if url = [] then []
          else (case h_get_conversation ctx (event_conversation_id ev) False of
                  Inr res \<Rightarrow>
                    (case latest_message res of
                       Some m \<Rightarrow>
                         if message_participating_as m = ''moderator'' then []
                         else [Http_fetch url (webhook_request (build_payload
                                 (Option.bind (conversation res) subject)
                                 (modmail_link (event_conversation_id ev)) m))]
                     | None \<Rightarrow> [])
                | Inl e \<Rightarrow> [])
      | _ \<Rightarrow> [])"

section \<open>Example inputs\<close>

text \<open>
  A host that answers every call: the webhook setting \<open>w\<close>, a conversation with one
  message \<open>m\<close> under a base-36 message id, and an HTTP status \<open>st\<close>.  The witnesses of
  the theorems below run the handler against it.
\<close>

definition example_message :: "js_string js_opt \<Rightarrow> message_data" where
  "example_message role =
     \<lparr>author = Some \<lparr>name = Some ''alice''\<rparr>, bodyMarkdown = Some ''Hello mods'',
      participatingAs = role\<rparr>"

definition example_response :: "message_data js_object \<Rightarrow> get_conversation_response" where
  "example_response msgs = \<lparr>conversation = Some \<lparr>subject = Some ''Question'', messages = msgs\<rparr>\<rparr>"

definition example_host :: "js_string js_opt \<Rightarrow> message_data js_object \<Rightarrow> nat \<Rightarrow> host" where
  "example_host w msgs st =
     \<lparr>h_settings_get = (\<lambda>k. Inr w),
      h_get_conversation = (\<lambda>c b. Inr (example_response msgs)),
      h_fetch = (\<lambda>u r. Inr \<lparr>status = st\<rparr>)\<rparr>"

definition example_event :: modmail_event where
  "example_event = \<lparr>conversationId = Some ''ModmailConversation_2abc1''\<rparr>"

abbreviation relay_request :: "modmail_event \<Rightarrow> get_conversation_response \<Rightarrow> message_data \<Rightarrow> http_request" where
  "relay_request ev res m \<equiv> webhook_request (build_payload (Option.bind (conversation res) subject)
                               (modmail_link (event_conversation_id ev)) m)"

section \<open>Running the handler\<close>

text \<open>
  The handler with the monad unfolded: one case per answer of the host, in the order of
  the calls.  Every property of a run below follows from these equations.
\<close>

lemma log_error_run:
  "log_error label e tr =
     (case message_of e of
        Inl e' \<Rightarrow> (Inl e', tr)
      | Inr msg \<Rightarrow> (Inr (), tr @ [Console_error [LStr label, log_value msg]]))"
  by (simp add: log_error_def act_defs split: sum.splits)

lemma sendModMailToWebhook_run:
  "sendModMailToWebhook ev ctx tr =
     (let cid = event_conversation_id ev; S = Settings_get ''webhook''; G = Get_conversation cid False in
      case h_settings_get ctx ''webhook'' of
        Inl e \<Rightarrow> log_error ''Error:'' e (tr @ [S])
      | Inr w \<Rightarrow>
          if \<not> js_truthy w then (Inr (), tr @ [S, Console_error [LStr ''No webhook URL provided'']])
          else case h_get_conversation ctx cid False of
            Inl e \<Rightarrow> log_error ''Error:'' e (tr @ [S, G])
          | Inr res \<Rightarrow>
              (case latest_message res of
                 None \<Rightarrow> (Inr (), tr @ [S, G, Console_error [LStr ''No messages found'']])
               | Some m \<Rightarrow>
                   if message_participating_as m = ''moderator'' then (Inr (), tr @ [S, G])
                   else
                     let url = js_coalesce w '''';
                         req = webhook_request (build_payload (Option.bind (conversation res) subject)
                                 (modmail_link cid) m);
                         F = Http_fetch url req
                     in case h_fetch ctx url req of
                          Inl e \<Rightarrow> log_error ''Error:'' e (tr @ [S, G, F])
                        | Inr r \<Rightarrow>
                            if response_ok r then (Inr (), tr @ [S, G, F])
                            else (Inr (), tr @ [S, G, F, Console_error [LStr ''Error sending data to webhook'']])))"
  by (simp add: sendModMailToWebhook_def act_defs Let_def split: sum.splits option.splits)

lemma onEvent_run:
  "onEvent ev ctx tr =
     (case ctx of
        None \<Rightarrow> (Inr (), tr @ [Console_error [LStr ''There was an error:'', LStr ''Context is probably undefined'']])
      | Some c \<Rightarrow>
          (case sendModMailToWebhook ev c tr of
             (Inl e, tr') \<Rightarrow> log_error ''There was an error:'' e tr'
           | (Inr u, tr') \<Rightarrow> (Inr u, tr')))"
  by (simp add: onEvent_def act_defs log_error_run split: option.splits prod.splits sum.splits)

lemma log_error_trace:
  "snd (log_error l e tr) =
     tr @ (case message_of e of Inl e' \<Rightarrow> [] | Inr msg \<Rightarrow> [Console_error [LStr l, log_value msg]])"
  by (simp add: log_error_run split: sum.splits)

lemma log_error_error_object:
  "fst (log_error l e tr) = Inl e' \<Longrightarrow> is_error_object e'"
  by (cases e) (auto simp: log_error_run is_error_object_def)

lemma log_error_of_error_object:
  "is_error_object e \<Longrightarrow> fst (log_error l e tr) = Inr ()"
  by (auto simp: log_error_run is_error_object_def)

lemma sendModMailToWebhook_throws_error_object:
  "fst (sendModMailToWebhook ev ctx tr) = Inl e \<Longrightarrow> is_error_object e"
  by (auto simp: sendModMailToWebhook_run Let_def split: sum.splits option.splits if_splits
      dest: log_error_error_object)

lemma filter_fetch_log_error:
  "filter is_http_fetch (snd (log_error l e tr)) = filter is_http_fetch tr"
  by (simp add: log_error_trace split: sum.splits)

lemma sendModMailToWebhook_fetches:
  "filter is_http_fetch (snd (sendModMailToWebhook ev ctx tr)) = filter is_http_fetch tr @ relay_posts ev ctx"
  by (simp add: sendModMailToWebhook_run relay_posts_def Let_def filter_fetch_log_error
      split: sum.splits option.splits)

lemma onEvent_fetches:
  "filter is_http_fetch (snd (onEvent ev (Some c) tr)) =
     filter is_http_fetch (snd (sendModMailToWebhook ev c tr))"
  by (simp add: onEvent_run filter_fetch_log_error split: prod.splits sum.splits)

lemma length_relay_posts: "length (relay_posts ev ctx) \<le> 1"
  by (simp add: relay_posts_def split: sum.splits option.splits)

lemma latest_message_eq:
  "latest_message res =
     (let msgs = js_coalesce (map_option messages (conversation res)) []
      in if object_keys msgs = [] then None
         else if last (object_keys msgs) = [] then None
         else obj_get msgs (last (object_keys msgs)))"
  by (simp add: latest_message_def Let_def last_conv_nth)

lemma latest_message_empty_last:
  assumes "conversation res = Some c" and "messages c = ps @ [('''', m)] @ qs"
    and "\<forall>k \<in> fst ` set qs. is_array_index k"
  shows "latest_message res = None"
proof -
  have nonidx: "\<exists>k \<in> fst ` set (messages c). \<not> is_array_index k"
    using assms(2) by (force simp: is_array_index_def)
  have "filter (\<lambda>k. \<not> is_array_index k) (map fst qs) = []"
    using assms(3) by (auto simp: filter_empty_conv)
  then have "last (object_keys (messages c)) = []"
    using last_object_keys [OF nonidx] assms(2) by (simp add: is_array_index_def)
  then show ?thesis using assms(1) by (simp add: latest_message_eq Let_def)
qed

lemma relay_posts_member:
  "Http_fetch u q \<in> set (relay_posts ev ctx) \<Longrightarrow>
     \<exists>res m. h_get_conversation ctx (event_conversation_id ev) False = Inr res \<and>
       latest_message res = Some m \<and> q = relay_request ev res m"
proof (cases "h_get_conversation ctx (event_conversation_id ev) False")
  case (Inr res)
  assume mem: "Http_fetch u q \<in> set (relay_posts ev ctx)"
  show ?thesis
  proof (cases "latest_message res")
    case (Some m)
    with Inr mem show ?thesis by (simp add: relay_posts_def split: sum.splits option.splits if_splits)
  qed (use Inr mem in \<open>simp add: relay_posts_def split: sum.splits option.splits\<close>)
qed (simp add: relay_posts_def split: sum.splits option.splits)

lemma webhook_body_decodes:
  "json_parse (req_body (webhook_request (build_payload subj link m))) = Some (build_payload subj link m)"
proof -
  have "json_plain (build_payload subj link m)"
    by (simp add: build_payload_def Let_def is_array_index_def is_digit_char_def)
  then show ?thesis by (simp add: webhook_request_def json_parse_stringify)
qed

lemmas example_simps = example_host_def example_response_def example_message_def example_event_def
  event_conversation_id_def latest_message_def object_keys_def is_array_index_def is_digit_char_def
  digits_value_def obj_get_def message_participating_as_def response_ok_def

section \<open>Properties of one invocation\<close>

text \<open>
  C1. When a webhook URL is configured, the conversation has a latest message whose author
  does not participate as a moderator, and the webhook answers with a 2xx status, the
  handler reads the setting, fetches the conversation (without marking it read), posts the
  payload built from that message to the URL, logs nothing and returns normally.
\<close>

theorem relay_forwards_last_message:
  assumes "h_settings_get ctx ''webhook'' = Inr (Some url)" and "url \<noteq> []"
    and "h_get_conversation ctx (event_conversation_id ev) False = Inr res"
    and "latest_message res = Some m" and "message_participating_as m \<noteq> ''moderator''"
    and "h_fetch ctx url (relay_request ev res m) = Inr resp" and "response_ok resp"
  shows "onEvent ev (Some ctx) tr =
           (Inr (), tr @ [Settings_get ''webhook'', Get_conversation (event_conversation_id ev) False,
                          Http_fetch url (relay_request ev res m)])"
  using assms by (simp add: onEvent_run sendModMailToWebhook_run Let_def)

theorem relay_forwards_last_message_witness:
  "onEvent example_event (Some (example_host (Some ''https://hook'')
       [(''2abc1'', example_message (Some ''participant_user''))] 204)) [] =
     (Inr (), [Settings_get ''webhook'', Get_conversation ''ModmailConversation_2abc1'' False,
               Http_fetch ''https://hook''
                 (relay_request example_event
                    (example_response [(''2abc1'', example_message (Some ''participant_user''))])
                    (example_message (Some ''participant_user'')))])"
  using relay_forwards_last_message [where
      ctx = "example_host (Some ''https://hook'') [(''2abc1'', example_message (Some ''participant_user''))] 204"
      and ev = example_event and tr = "[]" and url = "''https://hook''"
      and res = "example_response [(''2abc1'', example_message (Some ''participant_user''))]"
      and m = "example_message (Some ''participant_user'')" and resp = "\<lparr>status = 204\<rparr>"]
  by (simp add: example_simps)

text \<open>
  C2. The POSTs of one invocation are exactly those of the contract \<open>relay_posts\<close>:
  the handler makes the POST the contract asks for and no other, whatever the host
  answers and whatever was logged before.
\<close>

theorem relay_posts_refinement:
  "filter is_http_fetch (snd (onEvent ev (Some ctx) tr)) = filter is_http_fetch tr @ relay_posts ev ctx"
  by (simp add: onEvent_fetches sendModMailToWebhook_fetches)

text \<open>
  C3. When the latest message of the conversation is written by a participant acting as
  moderator, the handler makes no HTTP request at all.
\<close>

theorem relay_moderator_not_forwarded:
  assumes "h_get_conversation ctx (event_conversation_id ev) False = Inr res"
    and "latest_message res = Some m" and "message_participating_as m = ''moderator''"
  shows "\<not> (\<exists>u q. Http_fetch u q \<in> set (snd (onEvent ev (Some ctx) [])))"
proof -
  have "relay_posts ev ctx = []"
    using assms by (auto simp: relay_posts_def split: sum.splits option.splits)
  then have "filter is_http_fetch (snd (onEvent ev (Some ctx) [])) = []"
    by (simp add: onEvent_fetches sendModMailToWebhook_fetches)
  then show ?thesis by (auto simp: filter_empty_conv)
qed

theorem relay_moderator_not_forwarded_witness:
  "\<not> (\<exists>u q. Http_fetch u q \<in> set (snd (onEvent example_event
      (Some (example_host (Some ''https://hook'') [(''2abc1'', example_message (Some ''moderator''))] 204)) [])))"
  by (rule relay_moderator_not_forwarded [where
      res = "example_response [(''2abc1'', example_message (Some ''moderator''))]"
      and m = "example_message (Some ''moderator'')"])
    (simp_all add: example_simps)

text \<open>
  C4. When the webhook setting is missing or empty, the handler logs
  \<^verbatim>\<open>No webhook URL provided\<close> after reading it and makes no other call.
\<close>

theorem relay_no_webhook:
  assumes "h_settings_get ctx ''webhook'' = Inr w" and "\<not> js_truthy w"
  shows "onEvent ev (Some ctx) tr =
           (Inr (), tr @ [Settings_get ''webhook'', Console_error [LStr ''No webhook URL provided'']])"
  using assms by (simp add: onEvent_run sendModMailToWebhook_run Let_def)

theorem relay_no_webhook_witness:
  "onEvent example_event (Some (example_host (Some '''') [] 204)) [] =
     (Inr (), [Settings_get ''webhook'', Console_error [LStr ''No webhook URL provided'']])"
  using relay_no_webhook [where ctx = "example_host (Some '''') [] 204" and w = "Some ''''"
      and ev = example_event and tr = "[]"]
  by (simp add: example_simps)

text \<open>
  C5. When the conversation has no message that can be selected (in particular when it
  has no messages, or no conversation is returned), the handler logs
  \<^verbatim>\<open>No messages found\<close> after fetching it and posts nothing.
\<close>

theorem relay_no_messages:
  assumes "h_settings_get ctx ''webhook'' = Inr (Some url)" and "url \<noteq> []"
    and "h_get_conversation ctx (event_conversation_id ev) False = Inr res"
    and "latest_message res = None"
  shows "onEvent ev (Some ctx) tr =
           (Inr (), tr @ [Settings_get ''webhook'', Get_conversation (event_conversation_id ev) False,
                          Console_error [LStr ''No messages found'']])"
  using assms by (simp add: onEvent_run sendModMailToWebhook_run Let_def)

theorem relay_no_messages_witness:
  "onEvent example_event (Some (example_host (Some ''https://hook'') [] 204)) [] =
     (Inr (), [Settings_get ''webhook'', Get_conversation ''ModmailConversation_2abc1'' False,
               Console_error [LStr ''No messages found'']])"
  using relay_no_messages [where ctx = "example_host (Some ''https://hook'') [] 204"
      and url = "''https://hook''" and res = "example_response []"
      and ev = example_event and tr = "[]"]
  by (simp add: example_simps)

text \<open>
  C6. When the webhook answers with a status outside 200 to 299, the handler logs
  \<^verbatim>\<open>Error sending data to webhook\<close> after the POST and still returns normally.
\<close>

theorem relay_webhook_rejects:
  assumes "h_settings_get ctx ''webhook'' = Inr (Some url)" and "url \<noteq> []"
    and "h_get_conversation ctx (event_conversation_id ev) False = Inr res"
    and "latest_message res = Some m" and "message_participating_as m \<noteq> ''moderator''"
    and "h_fetch ctx url (relay_request ev res m) = Inr resp" and "\<not> response_ok resp"
  shows "onEvent ev (Some ctx) tr =
           (Inr (), tr @ [Settings_get ''webhook'', Get_conversation (event_conversation_id ev) False,
                          Http_fetch url (relay_request ev res m),
                          Console_error [LStr ''Error sending data to webhook'']])"
  using assms by (simp add: onEvent_run sendModMailToWebhook_run Let_def)

theorem relay_webhook_rejects_witness:
  "onEvent example_event (Some (example_host (Some ''https://hook'')
       [(''2abc1'', example_message None)] 404)) [] =
     (Inr (), [Settings_get ''webhook'', Get_conversation ''ModmailConversation_2abc1'' False,
               Http_fetch ''https://hook''
                 (relay_request example_event (example_response [(''2abc1'', example_message None)])
                    (example_message None)),
               Console_error [LStr ''Error sending data to webhook'']])"
  using relay_webhook_rejects [where
      ctx = "example_host (Some ''https://hook'') [(''2abc1'', example_message None)] 404"
      and ev = example_event and tr = "[]" and url = "''https://hook''"
      and res = "example_response [(''2abc1'', example_message None)]"
      and m = "example_message None" and resp = "\<lparr>status = 404\<rparr>"]
  by (simp add: example_simps)

text \<open>
  C7. The trigger callback never rejects: whatever the host answers or throws, and with
  or without a context, \<^verbatim>\<open>onEvent\<close> returns normally.  The inner \<^verbatim>\<open>catch\<close> can
  itself throw (reading \<^verbatim>\<open>.message\<close> of \<^verbatim>\<open>null\<close>), but only an \<^verbatim>\<open>Error\<close> object, whose
  message the outer \<^verbatim>\<open>catch\<close> reads safely.
\<close>

theorem onEvent_never_throws: "fst (onEvent ev ctx tr) = Inr ()"
proof (cases ctx)
  case None
  then show ?thesis by (simp add: onEvent_run)
next
  case (Some c)
  show ?thesis
  proof (cases "sendModMailToWebhook ev c tr")
    case (Pair r tr')
    then show ?thesis
      using Some sendModMailToWebhook_throws_error_object [of ev c tr]
      by (cases r) (auto simp: onEvent_run log_error_of_error_object)
  qed
qed

text \<open>C8. One invocation makes at most one HTTP request.\<close>

theorem relay_at_most_one_post:
  "length (filter is_http_fetch (snd (onEvent ev ctx []))) \<le> 1"
proof (cases ctx)
  case None
  then show ?thesis by (simp add: onEvent_run)
next
  case (Some c)
  then show ?thesis
    using length_relay_posts [of ev c] by (simp add: onEvent_fetches sendModMailToWebhook_fetches)
qed

text \<open>
  C9. When no message id of the conversation is an array index (Reddit's base-36 ids
  with a letter), the handler selects the message created last, as the spec's
  "message N of N" says, provided its id is not empty.
\<close>

theorem latest_message_last_created:
  assumes "conversation res = Some c" and "obj_wf (messages c)" and "messages c \<noteq> []"
    and "\<forall>k \<in> fst ` set (messages c). \<not> is_array_index k"
    and "fst (last (messages c)) \<noteq> []"
  shows "latest_message res = Some (snd (last (messages c)))"
proof -
  let ?msgs = "messages c"
  have keys: "object_keys ?msgs = map fst ?msgs"
    using assms(4) by (rule object_keys_no_index)
  have last_key: "last (map fst ?msgs) = fst (last ?msgs)"
    using assms(3) by (simp add: last_map)
  have "map_of ?msgs (fst (last ?msgs)) = Some (snd (last ?msgs))"
    using assms(2,3) by (simp add: obj_wf_def map_of_is_SomeI)
  then show ?thesis
    using assms(1,3,5) keys last_key by (simp add: latest_message_eq obj_get_def)
qed

theorem latest_message_last_created_witness:
  "latest_message (example_response [(''2abc1'', example_message None),
      (''2abc9'', example_message (Some ''moderator''))]) = Some (example_message (Some ''moderator''))"
  using latest_message_last_created [where
      res = "example_response [(''2abc1'', example_message None),
               (''2abc9'', example_message (Some ''moderator''))]"
      and c = "\<lparr>subject = Some ''Question'', messages = [(''2abc1'', example_message None),
               (''2abc9'', example_message (Some ''moderator''))]\<rparr>"]
  by (simp add: example_simps obj_wf_def)

text \<open>
  C10. When every message id is an array index, \<^verbatim>\<open>Object.keys\<close> orders the ids by
  their numeric value, so the handler selects the message with the greatest id, whatever
  the order in which the messages were created.
\<close>

theorem latest_message_numeric_ids:
  assumes "conversation res = Some c" and "obj_wf (messages c)"
    and "\<forall>k' \<in> fst ` set (messages c). is_array_index k'"
    and "(k, m) \<in> set (messages c)"
    and "\<forall>k' \<in> fst ` set (messages c). k' \<noteq> k \<longrightarrow> digits_value k' < digits_value k"
  shows "latest_message res = Some m"
proof -
  let ?ks = "sort_key digits_value (map fst (messages c))"
  have keys: "object_keys (messages c) = ?ks"
    using assms(3) by (rule object_keys_all_index)
  have k: "k \<in> set ?ks" using assms(4) by force
  then have ne: "?ks \<noteq> []" by (metis empty_iff empty_set)
  have "digits_value k \<le> digits_value (last ?ks)"
    using k by (intro sorted_map_last_max) (simp_all add: sorted_sort_key)
  moreover have "last ?ks \<in> fst ` set (messages c)"
    using last_in_set [OF ne] by simp
  ultimately have last: "last ?ks = k"
    using assms(5) by force
  have "k \<noteq> []" using assms(3,4) by (force simp: is_array_index_def)
  moreover have "map_of (messages c) k = Some m"
    using assms(2,4) by (simp add: obj_wf_def map_of_is_SomeI)
  ultimately show ?thesis
    using assms(1) keys ne last by (simp add: latest_message_eq obj_get_def)
qed

theorem latest_message_numeric_ids_witness:
  "latest_message (example_response [(''10'', example_message None),
      (''9'', example_message (Some ''moderator''))]) = Some (example_message None)"
  using latest_message_numeric_ids [where
      res = "example_response [(''10'', example_message None), (''9'', example_message (Some ''moderator''))]"
      and c = "\<lparr>subject = Some ''Question'', messages = [(''10'', example_message None),
               (''9'', example_message (Some ''moderator''))]\<rparr>"
      and k = "''10''" and m = "example_message None"]
  by (simp add: example_simps obj_wf_def)

text \<open>
  C11. A conversation whose last created message that is not stored under an array
  index is stored under the empty id is treated as having no message: although it has
  messages, the handler logs \<^verbatim>\<open>No messages found\<close> and posts nothing, because the empty
  key is falsy.
\<close>

theorem relay_empty_last_key:
  assumes "h_settings_get ctx ''webhook'' = Inr (Some url)" and "url \<noteq> []"
    and "h_get_conversation ctx (event_conversation_id ev) False = Inr res"
    and "conversation res = Some c" and "messages c = ps @ [('''', m)] @ qs"
    and "\<forall>k \<in> fst ` set qs. is_array_index k"
  shows "onEvent ev (Some ctx) tr =
           (Inr (), tr @ [Settings_get ''webhook'', Get_conversation (event_conversation_id ev) False,
                          Console_error [LStr ''No messages found'']])"
proof -
  have "latest_message res = None"
    using assms(4-6) by (rule latest_message_empty_last)
  then show ?thesis using assms(1-3) by (simp add: onEvent_run sendModMailToWebhook_run Let_def)
qed

theorem relay_empty_last_key_witness:
  "onEvent example_event (Some (example_host (Some ''https://hook'')
       [(''2abc1'', example_message None), ('''', example_message None)] 204)) [] =
     (Inr (), [Settings_get ''webhook'', Get_conversation ''ModmailConversation_2abc1'' False,
               Console_error [LStr ''No messages found'']])"
  using relay_empty_last_key [where
      ctx = "example_host (Some ''https://hook'') [(''2abc1'', example_message None), ('''', example_message None)] 204"
      and url = "''https://hook''" and ev = example_event and tr = "[]"
      and res = "example_response [(''2abc1'', example_message None), ('''', example_message None)]"
      and c = "\<lparr>subject = Some ''Question'', messages = [(''2abc1'', example_message None), ('''', example_message None)]\<rparr>"
      and ps = "[(''2abc1'', example_message None)]" and m = "example_message None" and qs = "[]"]
  by (simp add: example_simps)

text \<open>
  C12. The selected message is always one of the conversation's messages, stored under
  a non-empty id.
\<close>

theorem latest_message_is_a_message:
  assumes "latest_message res = Some m"
  shows "\<exists>c k. conversation res = Some c \<and> (k, m) \<in> set (messages c) \<and> k \<noteq> []"
proof (cases "conversation res")
  case None
  with assms show ?thesis by (simp add: latest_message_eq object_keys_def)
next
  case (Some c)
  with assms show ?thesis
    by (auto simp: latest_message_eq obj_get_def Let_def split: if_splits dest: map_of_SomeD)
qed

theorem latest_message_is_a_message_witness:
  "\<exists>c k. conversation (example_response [(''2abc1'', example_message None)]) = Some c \<and>
     (k, example_message None) \<in> set (messages c) \<and> k \<noteq> []"
  by (rule latest_message_is_a_message) (simp add: example_simps)

text \<open>
  C13. The link of a conversation whose id carries the \<^verbatim>\<open>ModmailConversation_\<close> prefix
  is the mod-mail URL followed by the id without the prefix.
\<close>

theorem modmail_link_strips_prefix:
  "modmail_link (''ModmailConversation_'' @ s) = ''https://mod.reddit.com/mail/all/'' @ s"
  by (simp add: modmail_link_def js_replace_prefix [of "''ModmailConversation_''", simplified])

text \<open>
  C14. When the host rejects the settings read with \<^verbatim>\<open>null\<close>, the inner \<^verbatim>\<open>catch\<close>
  throws a \<^verbatim>\<open>TypeError\<close> while reading \<^verbatim>\<open>error.message\<close>, and the outer \<^verbatim>\<open>catch\<close> logs
  that \<^verbatim>\<open>TypeError\<close> instead of the original failure.
\<close>

theorem relay_null_rejection:
  assumes "h_settings_get ctx ''webhook'' = Inl Null_thrown"
  shows "onEvent ev (Some ctx) tr =
           (Inr (), tr @ [Settings_get ''webhook'',
              Console_error [LStr ''There was an error:'',
                             LStr ''Cannot read properties of null (reading 'message')'']])"
  using assms by (simp add: onEvent_run sendModMailToWebhook_run log_error_run)

theorem relay_null_rejection_witness:
  "onEvent example_event (Some \<lparr>h_settings_get = (\<lambda>k. Inl Null_thrown),
       h_get_conversation = (\<lambda>c b. Inr (example_response [])), h_fetch = (\<lambda>u r. Inr \<lparr>status = 200\<rparr>)\<rparr>) [] =
     (Inr (), [Settings_get ''webhook'',
        Console_error [LStr ''There was an error:'', LStr ''Cannot read properties of null (reading 'message')'']])"
  using relay_null_rejection [where ctx = "\<lparr>h_settings_get = (\<lambda>k. Inl Null_thrown),
       h_get_conversation = (\<lambda>c b. Inr (example_response [])), h_fetch = (\<lambda>u r. Inr \<lparr>status = 200\<rparr>)\<rparr>"
      and ev = example_event and tr = "[]"]
  by simp

text \<open>
  C15. When the host rejects the conversation request with an \<^verbatim>\<open>Error\<close>, the inner
  \<^verbatim>\<open>catch\<close> logs \<^verbatim>\<open>Error:\<close> and its message, and nothing is posted.
\<close>

theorem relay_conversation_error_logged:
  assumes "h_settings_get ctx ''webhook'' = Inr (Some url)" and "url \<noteq> []"
    and "h_get_conversation ctx (event_conversation_id ev) False = Inl (Err_obj n msg)"
  shows "onEvent ev (Some ctx) tr =
           (Inr (), tr @ [Settings_get ''webhook'', Get_conversation (event_conversation_id ev) False,
                          Console_error [LStr ''Error:'', LStr msg]])"
  using assms by (simp add: onEvent_run sendModMailToWebhook_run log_error_run Let_def)

theorem relay_conversation_error_logged_witness:
  "onEvent example_event (Some \<lparr>h_settings_get = (\<lambda>k. Inr (Some ''https://hook'')),
       h_get_conversation = (\<lambda>c b. Inl (Err_obj ''Error'' ''not found'')),
       h_fetch = (\<lambda>u r. Inr \<lparr>status = 200\<rparr>)\<rparr>) [] =
     (Inr (), [Settings_get ''webhook'', Get_conversation ''ModmailConversation_2abc1'' False,
               Console_error [LStr ''Error:'', LStr ''not found'']])"
  using relay_conversation_error_logged [where ctx = "\<lparr>h_settings_get = (\<lambda>k. Inr (Some ''https://hook'')),
       h_get_conversation = (\<lambda>c b. Inl (Err_obj ''Error'' ''not found'')),
       h_fetch = (\<lambda>u r. Inr \<lparr>status = 200\<rparr>)\<rparr>"
      and url = "''https://hook''" and n = "''Error''" and msg = "''not found''"
      and ev = example_event and tr = "[]"]
  by (simp add: example_simps)

text \<open>
  C16. Without a context the callback makes no host call: it logs
  \<^verbatim>\<open>There was an error: Context is probably undefined\<close> and returns.
\<close>

theorem onEvent_no_context:
  "onEvent ev None tr =
     (Inr (), tr @ [Console_error [LStr ''There was an error:'', LStr ''Context is probably undefined'']])"
  by (simp add: onEvent_run)

text \<open>
  C19. What the webhook receives: every request the handler sends is a JSON
  \<^verbatim>\<open>POST\<close>, and a receiver decoding its body reads the conversation's subject
  (the word \<^verbatim>\<open>undefined\<close> when there is none), the mod-mail link of the conversation,
  and the author, body and role of the message the handler selected, with the defaults
  of lines 68 to 70.
\<close>

theorem relay_body_fields:
  assumes "Http_fetch url q \<in> set (snd (onEvent ev (Some ctx) []))"
  shows "\<exists>res m. h_get_conversation ctx (event_conversation_id ev) False = Inr res \<and>
     latest_message res = Some m \<and>
     req_method q = ''POST'' \<and> req_headers q = [(''Content-Type'', ''application/json'')] \<and>
     json_read (req_body q) [Field ''content''] = Some (JString ''New Modmail received'') \<and>
     json_read (req_body q) [Field ''embeds'', Index 0, Field ''title''] =
       Some (JString (js_template (Option.bind (conversation res) subject))) \<and>
     json_read (req_body q) [Field ''embeds'', Index 0, Field ''url''] =
       Some (JString (''https://mod.reddit.com/mail/all/'' @
                      js_replace (event_conversation_id ev) ''ModmailConversation_'' '''')) \<and>
     json_read (req_body q) [Field ''embeds'', Index 0, Field ''author'', Field ''name''] =
       Some (JString (''u/'' @ js_coalesce (Option.bind (author m) name) ''Unknown'')) \<and>
     json_read (req_body q) [Field ''embeds'', Index 0, Field ''description''] =
       Some (JString (''**Body**:'' @ [CHR 0x0A] @ js_coalesce (bodyMarkdown m) '''')) \<and>
     json_read (req_body q) [Field ''embeds'', Index 0, Field ''footer'', Field ''text''] =
       Some (JString (''Participating As: '' @ js_coalesce (participatingAs m) ''Unknown''))"
proof -
  have "Http_fetch url q \<in> set (filter is_http_fetch (snd (onEvent ev (Some ctx) [])))"
    using assms by simp
  then have "Http_fetch url q \<in> set (relay_posts ev ctx)"
    by (simp only: onEvent_fetches sendModMailToWebhook_fetches) simp
  then obtain res m where conv: "h_get_conversation ctx (event_conversation_id ev) False = Inr res"
    and lm: "latest_message res = Some m"
    and q: "q = relay_request ev res m"
    by (blast dest: relay_posts_member)
  have "json_parse (req_body q) = Some (build_payload (Option.bind (conversation res) subject)
          (modmail_link (event_conversation_id ev)) m)"
    using q by (simp add: webhook_body_decodes)
  then show ?thesis
    using conv lm q
    by (auto simp: json_read_def build_payload_def Let_def modmail_link_def message_author_name_def
        message_body_def message_participating_as_def webhook_request_def)
qed

theorem relay_body_fields_witness:
  "\<exists>res m. h_get_conversation (example_host (Some ''https://hook'') [(''2abc1'', example_message None)] 204)
       ''ModmailConversation_2abc1'' False = Inr res \<and> latest_message res = Some m \<and>
     json_read (req_body (relay_request example_event (example_response [(''2abc1'', example_message None)])
        (example_message None))) [Field ''embeds'', Index 0, Field ''description''] =
       Some (JString (''**Body**:'' @ [CHR 0x0A] @ js_coalesce (bodyMarkdown m) ''''))"
  using relay_body_fields [where url = "''https://hook''" and ev = example_event
      and ctx = "example_host (Some ''https://hook'') [(''2abc1'', example_message None)] 204"
      and q = "relay_request example_event (example_response [(''2abc1'', example_message None)])
        (example_message None)"]
  by (simp add: onEvent_run sendModMailToWebhook_run example_simps Let_def)

end
