(* ===== verification/AsyncMachine.thy ===== *)
theory AsyncMachine
  imports Relay
begin

text \<open>
  The handler as the JavaScript runtime executes it: an \<^verbatim>\<open>async\<close> function is a state
  machine that runs synchronously up to its next \<^verbatim>\<open>await\<close>, issues the awaited host
  call, and is suspended until the host answers.  \<open>inv_state\<close> has one constructor per
  suspension point of \<^verbatim>\<open>onEvent\<close> and \<^verbatim>\<open>sendModMailToWebhook\<close> (lines 19 to 114 of
  \<^verbatim>\<open>src/src/main.tsx\<close>) with the local variables live there; \<open>inv_step\<close> resumes a
  suspended invocation with the host's answer and runs it to its next suspension,
  returning the effects it issues.  Several invocations of the trigger are scheduled by
  the runtime in any order (\<open>sys_step\<close>); the theory shows that each invocation alone
  behaves as the functional model of \<open>Relay\<close>, and that under every interleaving the
  webhook receives exactly the posts of the invocations, each schedule ending after at
  most four steps per invocation.
\<close>

section \<open>One invocation as a state machine\<close>

datatype inv_state =
    Inv_start modmail_event "host js_opt"            \<comment> \<open>scheduled, not yet started\<close>
  | Inv_settings modmail_event host                  \<comment> \<open>at \<^verbatim>\<open>await context.settings.get('webhook')\<close>\<close>
  | Inv_conversation modmail_event host "js_string js_opt"
                                                     \<comment> \<open>at \<^verbatim>\<open>await ...getConversation(...)\<close>\<close>
  | Inv_fetch host js_string http_request            \<comment> \<open>at \<^verbatim>\<open>await fetch(webhook ?? '', ...)\<close>\<close>
  | Inv_done

text \<open>
  A host call rejected with \<open>e\<close>: the inner \<^verbatim>\<open>catch\<close> (lines 109 to 112) logs it, and
  what that block throws is logged by the outer \<^verbatim>\<open>catch\<close> (lines 29 to 33).  Both run
  synchronously, so the effects are those of the \<open>Relay\<close> model of the two blocks.
\<close>

definition inv_fail :: "js_thrown \<Rightarrow> effect list" where
  "inv_fail e = snd (act_catch (log_error ''Error:'' e) (log_error ''There was an error:'') [])"

fun inv_step :: "inv_state \<Rightarrow> (effect list \<times> inv_state) option" where
  "inv_step (Inv_start ev None) =
     Some (snd (log_error ''There was an error:'' (Err_obj ''Error'' ''Context is probably undefined'') []),
           Inv_done)"
| "inv_step (Inv_start ev (Some ctx)) = Some ([Settings_get ''webhook''], Inv_settings ev ctx)"
| "inv_step (Inv_settings ev ctx) =
     Some (case h_settings_get ctx ''webhook'' of
             Inl e \<Rightarrow> (inv_fail e, Inv_done)
           | Inr webhook \<Rightarrow>
               if \<not> js_truthy webhook
               then ([Console_error [LStr ''No webhook URL provided'']], Inv_done)
               else ([Get_conversation (event_conversation_id ev) False],
                     Inv_conversation ev ctx webhook))"
| "inv_step (Inv_conversation ev ctx webhook) =
     Some (case h_get_conversation ctx (event_conversation_id ev) False of
             Inl e \<Rightarrow> (inv_fail e, Inv_done)
           | Inr result \<Rightarrow>
               (case latest_message result of
                  None \<Rightarrow> ([Console_error [LStr ''No messages found'']], Inv_done)
                | Some lastMessage \<Rightarrow>
                    let payload = build_payload (Option.bind (conversation result) subject)
                                    (modmail_link (event_conversation_id ev)) lastMessage;
                        url = js_coalesce webhook '''';
                        req = webhook_request payload
                    in if message_participating_as lastMessage \<noteq> ''moderator''
                       then ([Http_fetch url req], Inv_fetch ctx url req)
                       else ([], Inv_done)))"
| "inv_step (Inv_fetch ctx url req) =
     Some (case h_fetch ctx url req of
             Inl e \<Rightarrow> (inv_fail e, Inv_done)
           | Inr response \<Rightarrow>
               if \<not> response_ok response
               then ([Console_error [LStr ''Error sending data to webhook'']], Inv_done)
               else ([], Inv_done))"
| "inv_step Inv_done = None"

text \<open>How many suspensions an invocation may still go through.\<close>

fun inv_rank :: "inv_state \<Rightarrow> nat" where
  "inv_rank (Inv_start ev ctx) = 4"
| "inv_rank (Inv_settings ev ctx) = 3"
| "inv_rank (Inv_conversation ev ctx w) = 2"
| "inv_rank (Inv_fetch ctx url req) = 1"
| "inv_rank Inv_done = 0"

text \<open>Running an invocation alone to its end: the effects it issues, and its step count.\<close>

function inv_run :: "inv_state \<Rightarrow> effect list" where
  "inv_run s = (case inv_step s of None \<Rightarrow> [] | Some (es, s') \<Rightarrow> es @ inv_run s')"
  by pat_completeness auto
termination
proof (relation "measure inv_rank")
  fix s x es s'
  assume "inv_step s = Some x" "(es, s') = x"
  then show "(s', s) \<in> measure inv_rank"
    by (cases s rule: inv_step.cases) (auto simp: Let_def split: sum.splits option.splits if_splits)
qed simp

declare inv_run.simps [simp del]

text \<open>The number of times an invocation is still suspended at an \<^verbatim>\<open>await\<close>.\<close>

function inv_awaits :: "inv_state \<Rightarrow> nat" where
  "inv_awaits s =
     (case inv_step s of
        None \<Rightarrow> 0
      | Some (es, s') \<Rightarrow> (if s' = Inv_done then 0 else 1) + inv_awaits s')"
  by pat_completeness auto
termination
proof (relation "measure inv_rank")
  fix s x es s'
  assume "inv_step s = Some x" "(es, s') = x"
  then show "(s', s) \<in> measure inv_rank"
    by (cases s rule: inv_step.cases) (auto simp: Let_def split: sum.splits option.splits if_splits)
qed simp

declare inv_awaits.simps [simp del]

section \<open>Concurrent invocations\<close>

text \<open>
  An invocation of the trigger: its event and the context the runtime passes.  The
  runtime holds the invocations it has started, each at one of its suspension points,
  and the trace of all their effects; a step resumes one of them, in any order, and
  runs it to its next suspension.  Invocations not yet begun are at \<open>Inv_start\<close>.
\<close>

type_synonym invocation = "modmail_event \<times> host js_opt"

text \<open>The runtime's trace: every effect tagged with the invocation that issued it.\<close>

type_synonym sys_trace = "(nat \<times> effect) list"

type_synonym sys_state = "inv_state list \<times> sys_trace"

definition sys_init :: "invocation list \<Rightarrow> sys_state" where
  "sys_init invs = (map (\<lambda>(ev, ctx). Inv_start ev ctx) invs, [])"

inductive sys_step :: "sys_state \<Rightarrow> sys_state \<Rightarrow> bool" where
  resume: "i < length ps \<Longrightarrow> inv_step (ps ! i) = Some (es, s') \<Longrightarrow>
             sys_step (ps, tr) (ps[i := s'], tr @ map (Pair i) es)"

definition sys_final :: "sys_state \<Rightarrow> bool" where
  "sys_final st \<longleftrightarrow> list_all (\<lambda>s. s = Inv_done) (fst st)"

definition sys_measure :: "sys_state \<Rightarrow> nat" where
  "sys_measure st = sum_list (map inv_rank (fst st))"

text \<open>The effects invocation \<open>i\<close> has issued, in the order the runtime observed them.\<close>

definition sys_effects_of :: "nat \<Rightarrow> sys_trace \<Rightarrow> effect list" where
  "sys_effects_of i tr = map snd (filter (\<lambda>e. fst e = i) tr)"

text \<open>A schedule: the invocation resumed at each step; \<open>None\<close> if it cannot be resumed.\<close>

fun sys_run :: "nat list \<Rightarrow> sys_state \<Rightarrow> sys_state option" where
  "sys_run [] st = Some st"
| "sys_run (i # sch) (ps, tr) =
     (if i < length ps then
        (case inv_step (ps ! i) of
           None \<Rightarrow> None
         | Some (es, s') \<Rightarrow> sys_run sch (ps[i := s'], tr @ map (Pair i) es))
      else None)"

text \<open>What one invocation should post, by the contract of \<open>Relay\<close>.\<close>

fun invocation_posts :: "invocation \<Rightarrow> effect list" where
  "invocation_posts (ev, None) = []"
| "invocation_posts (ev, Some c) = relay_posts ev c"

text \<open>
  Two invocations for events of two conversations, whose hosts are configured with
  different webhooks; both forward their conversation's only message.
\<close>

definition example_event_b :: modmail_event where
  "example_event_b = \<lparr>conversationId = Some ''ModmailConversation_2abc2''\<rparr>"

definition example_invocations :: "invocation list" where
  "example_invocations =
     [(example_event, Some (example_host (Some ''https://hook-a'') [(''2abc1'', example_message None)] 204)),
      (example_event_b, Some (example_host (Some ''https://hook-b'') [(''2abc2'', example_message None)] 204))]"

inductive_cases sys_step_elim: "sys_step st st'"

subsection \<open>One invocation\<close>

lemma inv_step_rank: "inv_step s = Some (es, s') \<Longrightarrow> inv_rank s' < inv_rank s"
  by (cases s rule: inv_step.cases) (auto simp: Let_def split: sum.splits option.splits if_splits)

lemma inv_step_None_iff: "inv_step s = None \<longleftrightarrow> s = Inv_done"
  by (cases s rule: inv_step.cases) auto

lemma inv_run_step: "inv_step s = Some (es, s') \<Longrightarrow> inv_run s = es @ inv_run s'"
  by (simp add: inv_run.simps)

lemma inv_run_done [simp]: "inv_run Inv_done = []"
  by (simp add: inv_run.simps)

lemma inv_fail_catch:
  "snd (case log_error ''Error:'' e tr of
          (Inl e', tr') \<Rightarrow> log_error ''There was an error:'' e' tr'
        | (Inr u, tr') \<Rightarrow> (Inr u, tr')) = tr @ inv_fail e"
  by (simp add: inv_fail_def act_catch_def log_error_run split: sum.splits)

lemma inv_run_start: "inv_run (Inv_start ev ctx) = snd (onEvent ev ctx [])"
proof (cases ctx)
  case None
  then show ?thesis by (simp add: inv_run.simps onEvent_run log_error_run)
next
  case (Some c)
  then show ?thesis
    by (simp add: inv_run.simps onEvent_run sendModMailToWebhook_run inv_fail_def act_catch_def
        Let_def log_error_run split: sum.splits option.splits prod.splits)
qed

lemma onEvent_posts: "filter is_http_fetch (snd (onEvent ev ctx [])) = invocation_posts (ev, ctx)"
  by (cases ctx) (simp add: onEvent_run, simp add: onEvent_fetches sendModMailToWebhook_fetches)

subsection \<open>The scheduler\<close>

lemma sys_step_measure: "sys_step st st' \<Longrightarrow> sys_measure st' < sys_measure st"
proof (induction rule: sys_step.induct)
  case (resume i ps es s' tr)
  have "sys_measure (ps[i := s'], tr @ map (Pair i) es) + inv_rank (ps ! i) =
        sys_measure (ps, tr) + inv_rank s'"
    using resume(1) by (simp add: sys_measure_def sum_list_map_update)
  then show ?case using inv_step_rank [OF resume(2)] by simp
qed

lemma sys_effects_of_append:
  "sys_effects_of j (tr @ map (Pair i) es) = sys_effects_of j tr @ (if j = i then es else [])"
  by (induction es) (auto simp: sys_effects_of_def)

text \<open>
  The invariant of the runtime: it keeps one state per invocation; every effect of the
  trace is tagged with an invocation; and what invocation \<open>i\<close> has issued, followed by
  what its current state will still issue, is what it issues when run alone.
\<close>

lemma sys_reach_invariant:
  assumes "sys_step\<^sup>*\<^sup>* (sys_init invs) st"
  shows "length (fst st) = length invs \<and> (\<forall>e \<in> set (snd st). fst e < length invs) \<and>
         (\<forall>i < length invs. sys_effects_of i (snd st) @ inv_run (fst st ! i) =
                            inv_run (case invs ! i of (ev, ctx) \<Rightarrow> Inv_start ev ctx))"
  using assms
proof (induction rule: rtranclp_induct)
  case base
  then show ?case by (simp add: sys_init_def sys_effects_of_def split: prod.splits)
next
  case (step st st')
  from step.hyps(2) show ?case
  proof (cases rule: sys_step.cases)
    case (resume i ps es s' tr)
    have run: "inv_run (ps ! i) = es @ inv_run s'" using resume(4) by (rule inv_run_step)
    show ?thesis
      using step.IH run resume(1,2,3) by (auto simp: sys_effects_of_append nth_list_update)
  qed
qed

lemma mset_tagged_split:
  "\<forall>e \<in> set tr. fst e < n \<Longrightarrow> mset (map snd tr) = (\<Sum>i<n. mset (sys_effects_of i tr))"
proof (induction tr)
  case Nil
  then show ?case by (simp add: sys_effects_of_def)
next
  case (Cons a tr)
  have "(\<Sum>i<n. mset (sys_effects_of i (a # tr))) =
        (\<Sum>i<n. (if i = fst a then {#snd a#} else {#}) + mset (sys_effects_of i tr))"
    by (rule sum.cong) (auto simp: sys_effects_of_def)
  also have "\<dots> = {#snd a#} + (\<Sum>i<n. mset (sys_effects_of i tr))"
    using Cons.prems by (simp add: sum.distrib)
  finally show ?case using Cons by simp
qed

lemma sys_run_sound: "sys_run sch st = Some st' \<Longrightarrow> sys_step\<^sup>*\<^sup>* st st'"
proof (induction sch st rule: sys_run.induct)
  case (2 i sch ps tr)
  then show ?case
    by (auto split: if_splits option.splits intro: converse_rtranclp_into_rtranclp sys_step.resume)
qed simp

lemma sys_run_measure: "sys_run sch st = Some st' \<Longrightarrow> length sch + sys_measure st' \<le> sys_measure st"
proof (induction sch st rule: sys_run.induct)
  case (2 i sch ps tr)
  then obtain es s' where i: "i < length ps" and step: "inv_step (ps ! i) = Some (es, s')"
    and rest: "sys_run sch (ps[i := s'], tr @ map (Pair i) es) = Some st'"
    by (auto split: if_splits option.splits)
  have "sys_measure (ps[i := s'], tr @ map (Pair i) es) < sys_measure (ps, tr)"
    using i step by (intro sys_step_measure sys_step.resume)
  then show ?case using "2.IH" [OF i step refl] rest by simp
qed simp

lemma sys_measure_init: "sys_measure (sys_init invs) = 4 * length invs"
  by (induction invs) (auto simp: sys_measure_def sys_init_def)

lemma sys_final_effects:
  assumes "sys_step\<^sup>*\<^sup>* (sys_init invs) st" "sys_final st" "i < length invs"
  shows "sys_effects_of i (snd st) = snd (case invs ! i of (ev, ctx) \<Rightarrow> onEvent ev ctx [])"
proof -
  note inv = sys_reach_invariant [OF assms(1)]
  have "fst st ! i = Inv_done"
    using assms(2,3) inv by (simp add: sys_final_def list_all_length)
  moreover have "sys_effects_of i (snd st) @ inv_run (fst st ! i) =
      inv_run (case invs ! i of (ev, ctx) \<Rightarrow> Inv_start ev ctx)"
    using inv assms(3) by blast
  ultimately show ?thesis by (cases "invs ! i") (simp add: inv_run_start)
qed

lemma sum_list_map_sum_nth: "sum_list (map f xs) = (\<Sum>i<length xs. f (xs ! i))"
  by (simp add: sum_list_sum_nth atLeast0LessThan)

text \<open>
  C20. Whatever order the runtime resumes concurrent invocations in, once all of them
  have finished each invocation has issued exactly the effects, in the same order, that
  \<^verbatim>\<open>onEvent\<close> issues when it runs alone.
\<close>

theorem sys_program_order:
  assumes "sys_step\<^sup>*\<^sup>* (sys_init invs) st" and "sys_final st"
    and "i < length invs" and "invs ! i = (ev, ctx)"
  shows "sys_effects_of i (snd st) = snd (onEvent ev ctx [])"
  using sys_final_effects [OF assms(1-3)] assms(4) by simp

theorem sys_program_order_witness:
  "\<exists>st. sys_run [0, 1, 0, 1, 0, 1, 0, 1] (sys_init example_invocations) = Some st \<and>
        sys_effects_of 1 (snd st) =
          snd (onEvent example_event_b
                 (Some (example_host (Some ''https://hook-b'') [(''2abc2'', example_message None)] 204)) [])"
proof -
  obtain st where run: "sys_run [0, 1, 0, 1, 0, 1, 0, 1] (sys_init example_invocations) = Some st"
    by (simp add: sys_init_def example_invocations_def example_event_b_def example_simps Let_def)
  have "sys_final st"
    using run by (auto simp: sys_init_def sys_final_def example_invocations_def example_event_b_def example_simps Let_def)
  then show ?thesis
    using run sys_program_order [OF sys_run_sound [OF run], of 1 example_event_b
        "Some (example_host (Some ''https://hook-b'') [(''2abc2'', example_message None)] 204)"]
    by (simp add: example_invocations_def)
qed

lemma sys_effects_of_fetches:
  "sys_effects_of i (filter (\<lambda>e. is_http_fetch (snd e)) tr) = filter is_http_fetch (sys_effects_of i tr)"
  by (induction tr) (auto simp: sys_effects_of_def)

text \<open>
  C21. No post is lost or duplicated by concurrency: once all invocations have finished,
  under any interleaving, the requests sent to webhooks are, as a multiset, exactly the
  posts the contract \<open>relay_posts\<close> prescribes for each invocation.
\<close>

theorem sys_final_posts:
  assumes "sys_step\<^sup>*\<^sup>* (sys_init invs) st" and "sys_final st"
  shows "mset (filter is_http_fetch (map snd (snd st))) =
           sum_list (map (\<lambda>inv. mset (invocation_posts inv)) invs)"
proof -
  let ?fs = "filter (\<lambda>e. is_http_fetch (snd e)) (snd st)"
  have tags: "\<forall>e \<in> set ?fs. fst e < length invs"
    using sys_reach_invariant [OF assms(1)] by auto
  have each: "mset (sys_effects_of i ?fs) = mset (invocation_posts (invs ! i))"
    if "i < length invs" for i
    using sys_final_effects [OF assms that]
    by (cases "invs ! i") (simp add: sys_effects_of_fetches onEvent_posts)
  have "filter is_http_fetch (map snd (snd st)) = map snd ?fs"
    by (simp add: filter_map comp_def)
  also have "mset \<dots> = (\<Sum>i<length invs. mset (sys_effects_of i ?fs))"
    using tags by (rule mset_tagged_split)
  also have "\<dots> = (\<Sum>i<length invs. mset (invocation_posts (invs ! i)))"
    using each by simp
  finally show ?thesis by (simp add: sum_list_map_sum_nth)
qed

theorem sys_final_posts_witness:
  "\<exists>st. sys_run [1, 0, 1, 0, 1, 0, 1, 0] (sys_init example_invocations) = Some st \<and>
        mset (filter is_http_fetch (map snd (snd st))) =
          mset (invocation_posts (hd example_invocations)) +
          mset (invocation_posts (hd (tl example_invocations)))"
proof -
  obtain st where run: "sys_run [1, 0, 1, 0, 1, 0, 1, 0] (sys_init example_invocations) = Some st"
    by (simp add: sys_init_def example_invocations_def example_event_b_def example_simps Let_def)
  have "sys_final st"
    using run by (auto simp: sys_init_def sys_final_def example_invocations_def example_event_b_def example_simps Let_def)
  then show ?thesis
    using run sys_final_posts [OF sys_run_sound [OF run]]
    by (simp add: example_invocations_def)
qed

text \<open>
  C22. No schedule runs forever: the converse of the step relation of the runtime is
  well-founded, since each step moves one invocation past one of its suspension points.
\<close>

theorem sys_terminates: "wfp (\<lambda>st' st. sys_step st st')"
  by (rule wfp_if_convertible_to_nat [where f = sys_measure]) (rule sys_step_measure)

text \<open>
  C23. Every schedule of \<open>n\<close> invocations has at most \<open>4 n\<close> steps: each invocation is
  resumed at most four times (its start and the three \<^verbatim>\<open>await\<close>s).
\<close>

theorem sys_run_bound:
  "sys_run sch (sys_init invs) = Some st \<Longrightarrow> length sch \<le> 4 * length invs"
  using sys_run_measure [of sch "sys_init invs" st] by (simp add: sys_measure_init)

theorem sys_run_bound_witness:
  "\<exists>st. sys_run [0, 0, 1, 1, 0, 1, 0, 1] (sys_init example_invocations) = Some st \<and>
        length [0::nat, 0, 1, 1, 0, 1, 0, 1] \<le> 4 * length example_invocations"
proof -
  obtain st where run: "sys_run [0, 0, 1, 1, 0, 1, 0, 1] (sys_init example_invocations) = Some st"
    by (simp add: sys_init_def example_invocations_def example_event_b_def example_simps Let_def)
  then show ?thesis using sys_run_bound [OF run] by blast
qed

text \<open>
  C24. An invocation that posts to the webhook is suspended three times, at the
  \<^verbatim>\<open>await\<close>s of the settings read, the conversation fetch and the HTTP request, while
  the spec names the outbound call as the one suspension point.
\<close>

theorem inv_awaits_posting:
  "relay_posts ev c \<noteq> [] \<Longrightarrow> inv_awaits (Inv_start ev (Some c)) = 3"
  by (auto simp: relay_posts_def inv_awaits.simps Let_def split: sum.splits option.splits if_splits)

theorem inv_awaits_posting_witness:
  "inv_awaits (Inv_start example_event
     (Some (example_host (Some ''https://hook-a'') [(''2abc1'', example_message None)] 204))) = 3"
  using inv_awaits_posting [of example_event
      "example_host (Some ''https://hook-a'') [(''2abc1'', example_message None)] 204"]
  by (simp add: relay_posts_def example_simps)

lemma sys_run_append: "sys_run (a @ b) st = Option.bind (sys_run a st) (sys_run b)"
  by (induction a st rule: sys_run.induct) (auto split: option.splits)

text \<open>Resuming one invocation until it returns runs it as it runs alone.\<close>

lemma sys_run_solo:
  "i < length ps \<Longrightarrow>
     \<exists>k. sys_run (replicate k i) (ps, tr) = Some (ps[i := Inv_done], tr @ map (Pair i) (inv_run (ps ! i)))"
proof (induction "inv_rank (ps ! i)" arbitrary: ps tr rule: less_induct)
  case less
  show ?case
  proof (cases "inv_step (ps ! i)")
    case None
    then have "ps ! i = Inv_done" by (simp add: inv_step_None_iff)
    then have "ps[i := Inv_done] = ps" by (metis list_update_id)
    then show ?thesis using \<open>ps ! i = Inv_done\<close> by (intro exI [of _ 0]) simp
  next
    case (Some r)
    obtain es s' where step: "inv_step (ps ! i) = Some (es, s')" using Some by (cases r) auto
    have "inv_rank (ps[i := s'] ! i) < inv_rank (ps ! i)"
      using less.prems inv_step_rank [OF step] by simp
    then obtain k where k: "sys_run (replicate k i) (ps[i := s'], tr @ map (Pair i) es) =
        Some ((ps[i := s'])[i := Inv_done], tr @ map (Pair i) es @ map (Pair i) (inv_run (ps[i := s'] ! i)))"
      using less.hyps [of "ps[i := s']" "tr @ map (Pair i) es"] less.prems by auto
    show ?thesis
      using k less.prems step inv_run_step [OF step]
      by (intro exI [of _ "Suc k"]) simp
  qed
qed

lemma inv_run_posts: "filter is_http_fetch (inv_run (Inv_start ev ctx)) = invocation_posts (ev, ctx)"
  by (simp add: inv_run_start onEvent_posts)

text \<open>
  C25. Concurrent invocations may deliver out of order: for any two invocations that
  both post, there is a schedule in which the first one starts first (its settings read
  is the first effect) and yet the second one's post is sent before the first one's.
\<close>

theorem sys_posts_reordered:
  assumes "invocation_posts inv0 \<noteq> []" and "invocation_posts inv1 \<noteq> []"
  shows "\<exists>sch st. sys_run sch (sys_init [inv0, inv1]) = Some st \<and> sys_final st \<and>
     fst (hd (snd st)) = 0 \<and>
     filter is_http_fetch (map snd (snd st)) = invocation_posts inv1 @ invocation_posts inv0"
proof -
  obtain ev0 c0 where inv0: "inv0 = (ev0, Some c0)"
    using assms(1) by (cases inv0 rule: invocation_posts.cases) auto
  obtain ev1 ctx1 where inv1: "inv1 = (ev1, ctx1)" by (cases inv1)
  let ?S = "Settings_get ''webhook''"
  let ?r0 = "inv_run (Inv_settings ev0 c0)"
  let ?r1 = "inv_run (Inv_start ev1 ctx1)"
  have start: "sys_run [0] (sys_init [inv0, inv1]) =
      Some ([Inv_settings ev0 c0, Inv_start ev1 ctx1], [(0, ?S)])"
    by (simp add: sys_init_def inv0 inv1)
  obtain k1 where run1: "sys_run (replicate k1 1) ([Inv_settings ev0 c0, Inv_start ev1 ctx1], [(0, ?S)]) =
      Some ([Inv_settings ev0 c0, Inv_done], [(0, ?S)] @ map (Pair 1) ?r1)"
    using sys_run_solo [of 1 "[Inv_settings ev0 c0, Inv_start ev1 ctx1]" "[(0, ?S)]"] by auto
  obtain k0 where run0: "sys_run (replicate k0 0) ([Inv_settings ev0 c0, Inv_done], [(0, ?S)] @ map (Pair 1) ?r1) =
      Some ([Inv_done, Inv_done], [(0, ?S)] @ map (Pair 1) ?r1 @ map (Pair 0) ?r0)"
    using sys_run_solo [of 0 "[Inv_settings ev0 c0, Inv_done]" "[(0, ?S)] @ map (Pair 1) ?r1"] by auto
  have run: "sys_run ([0] @ replicate k1 1 @ replicate k0 0) (sys_init [inv0, inv1]) =
      Some ([Inv_done, Inv_done], [(0, ?S)] @ map (Pair 1) ?r1 @ map (Pair 0) ?r0)"
    by (simp only: sys_run_append start run1 run0 Option.bind.simps)
  have "filter is_http_fetch ?r0 = invocation_posts inv0"
    using inv_run_posts [of ev0 "Some c0"] inv_run_step [of "Inv_start ev0 (Some c0)"] by (simp add: inv0)
  moreover have "filter is_http_fetch ?r1 = invocation_posts inv1"
    using inv_run_posts [of ev1 ctx1] by (simp add: inv1)
  ultimately show ?thesis
    using run by (intro exI conjI) (auto simp: sys_final_def comp_def)
qed

theorem sys_posts_reordered_witness:
  "\<exists>sch st. sys_run sch (sys_init example_invocations) = Some st \<and> sys_final st \<and>
     fst (hd (snd st)) = 0 \<and>
     filter is_http_fetch (map snd (snd st)) =
       invocation_posts (example_invocations ! 1) @ invocation_posts (example_invocations ! 0)"
  using sys_posts_reordered [of "example_invocations ! 0" "example_invocations ! 1"]
  by (simp add: example_invocations_def relay_posts_def example_simps example_event_b_def)

end
