(* ===== verification/Spec2Isabelle.thy ===== *)
theory Spec2Isabelle
  imports AsyncMachine
begin

text \<open>
  Verification development for the Devvit mod-mail relay of \<^verbatim>\<open>src/src/main.tsx\<close>.

  \<^bold>\<open>The program.\<close>  One TypeScript file registers, with the Devvit host platform, a
  configuration (\<^verbatim>\<open>Devvit.configure\<close>: HTTP and Reddit API access), one installation
  setting (\<^verbatim>\<open>Devvit.addSettings\<close>: the webhook URL) and one trigger
  (\<^verbatim>\<open>Devvit.addTrigger\<close> on \<^verbatim>\<open>ModMail\<close>).  The trigger callback \<^verbatim>\<open>onEvent\<close> checks
  that it has a context and calls \<^verbatim>\<open>sendModMailToWebhook\<close>, which reads the setting,
  fetches the conversation from the host, selects its latest message by the key order
  of \<^verbatim>\<open>Object.keys\<close>, and, unless its author participates as a moderator, posts a JSON
  payload to the webhook.  Every failure is caught and logged with \<^verbatim>\<open>console.error\<close>.
  The components interact only through calls: the handler calls the host (settings,
  mod-mail API, \<^verbatim>\<open>fetch\<close>, console); there is no state kept between invocations.

  \<^bold>\<open>Theories.\<close>
  \<^item> \<open>Prelude\<close>: the rule collection \<open>act_simps\<close>, type names, generic list and sum
    facts.
  \<^item> \<open>JsRuntime\<close>: the ECMAScript behaviour the code relies on, modelled from ECMA-262
    (not code of the repository): thrown values and \<^verbatim>\<open>error.message\<close>
    (\<open>message_of\<close>), truthiness (\<open>js_truthy\<close>), \<^verbatim>\<open>??\<close> (\<open>js_coalesce\<close>), template
    interpolation (\<open>js_template\<close>), \<^verbatim>\<open>String.prototype.replace\<close> (\<open>js_replace\<close>, proved
    equal to a one-pass scan \<open>replace_first\<close>), objects as creation-ordered property lists
    (\<open>obj_get\<close>, \<open>obj_set\<close>) and \<^verbatim>\<open>Object.keys\<close> (\<open>object_keys\<close>: array-index keys first
    in numeric order, then the others in creation order).
  \<^item> \<open>Effects\<close>: the records of the host's data (\<^verbatim>\<open>@devvit/protos\<close>), the observable
    effects (\<open>effect\<close>), the host as a record of answers (\<open>host\<close>), and the effect
    monad \<open>'a act\<close>: a state monad over the trace of effects with exceptions as \<open>Inl\<close>.
    \<^verbatim>\<open>await\<close> of a host call appends the call to the trace and continues with the
    host's answer.
  \<^item> \<open>Json\<close>: JSON values and \<^verbatim>\<open>JSON.stringify\<close> (ECMA-262), used for the request
    body, and a reference decoder \<open>json_parse\<close> (\<^verbatim>\<open>JSON.parse\<close> on the same values), with
    the round trip \<open>json_parse_stringify\<close> for values whose object keys are not array
    indexes, and \<open>json_read\<close>, which reads a field of a decoded body the way a
    receiver does (\<^verbatim>\<open>body.embeds[0].title\<close>).
  \<^item> \<open>Devvit\<close>: \<^verbatim>\<open>Devvit.configure\<close> (\<open>app_config\<close>), \<^verbatim>\<open>Devvit.addSettings\<close>
    (\<open>app_settings\<close>) and which capability each host call needs.
  \<^item> \<open>Relay\<close>: the code of the handler: \<open>modmail_link\<close>, \<open>latest_message\<close>,
    \<open>build_payload\<close>, \<open>webhook_request\<close>, \<open>log_error\<close> (both \<^verbatim>\<open>catch\<close> blocks),
    \<open>sendModMailToWebhook\<close> and \<open>onEvent\<close>, with the behaviour of one invocation on every
    branch.
  \<^item> \<open>AsyncMachine\<close>: the same handler as the runtime executes it, a state machine
    (\<open>inv_state\<close>, \<open>inv_step\<close>) with one state per \<^verbatim>\<open>await\<close> (lines 41, 50 and 96) that
    runs synchronously between them, proved to issue the effects of \<open>onEvent\<close>
    (\<open>inv_run_start\<close>); and the Devvit runtime's interleaving of concurrent invocations
    of the trigger as the step relation \<open>sys_step\<close> on the list of their states and a
    trace of effects tagged by invocation, with executable schedules \<open>sys_run\<close>.

  \<^bold>\<open>Modelling choices.\<close>  JavaScript strings are lists of Isabelle characters
  (8-bit code units; the code never inspects code units beyond ASCII).  A value that may
  be \<^verbatim>\<open>undefined\<close> is an option.  The host is a record of functions giving its answer
  (or rejection) to each call, so a theorem over every \<open>host\<close> covers every behaviour of
  the platform that settles its calls, rejections and network errors included.  There are no loops and no arithmetic with
  overflow in the code, so no machine words are needed; the recursions of the runtime
  model (\<open>string_index_of\<close>, \<open>json_stringify\<close>) have termination proofs.  The one
  fuel of the development is that of the reference decoder: \<open>json_parse s\<close> runs
  \<open>parse_value\<close> with \<open>length s + 1\<close> steps, and \<open>parse_roundtrip_fuel\<close> shows that
  fuel above the size of a value is enough to decode its text, while
  \<open>size_le_length_stringify\<close> bounds that size by the length of the text.

  \<^bold>\<open>Properties.\<close>  The lemmas of \<open>Relay\<close> give the behaviour of one invocation on
  every branch of the code: the request posted for a non-moderator latest message (C1),
  its refinement of the contract \<open>relay_posts\<close> (C2), the moderator guard (C3), each
  early return and each failure with the line it logs (C4 to C6, C14 to C16), that the
  callback never throws (C7) and posts at most once (C8), the selection of the latest
  message by \<^verbatim>\<open>Object.keys\<close> order (C9, C10, C12) and the conversations whose messages
  it does not see (C11), the link it builds (C13), and what a receiver decoding a posted
  body reads in each field (C19).  The root theory relates the handler to the app's
  wiring: \<open>app_config\<close> requests exactly the capabilities the handler uses (C17) and the
  handler reads only the declared setting (C18).  The lemmas of \<open>AsyncMachine\<close> cover
  concurrent invocations: under every interleaving each invocation issues its effects in
  program order (C20) and the webhooks receive exactly the prescribed posts (C21); no
  schedule is infinite (C22) and a schedule of \<open>n\<close> invocations has at most \<open>4 n\<close> steps
  (C23); a posting invocation is suspended three times (C24); and of two posting
  invocations the one started first may post last (C25).  The invariant behind C20 and
  C21 is \<open>sys_reach_invariant\<close>, proved by rule induction over the reflexive transitive
  closure of \<open>sys_step\<close>; termination and the bound use the measure \<open>sys_measure\<close>, the
  sum over invocations of their remaining suspension points; C25 composes schedules with
  \<open>sys_run_append\<close> and \<open>sys_run_solo\<close>.

  \<^bold>\<open>Not modelled.\<close>  The network and the platform's services are represented only
  through the host's answers.  Every host call is assumed to settle: a request that
  never answers (the code sets no timeout on \<^verbatim>\<open>fetch\<close>) cannot be expressed, so C22 and
  C23 bound the steps of the runtime, not the time an invocation may stay suspended.  Each invocation is given its own host and makes each call
  at most once, so platforms whose settings or conversations change over time are
  covered by choosing the hosts; what is not modelled is how the platform computes its
  answers.  The runtime's
  scheduler is modelled by the most general interleaving (any suspended invocation may
  be resumed next); microtask ticks that involve no host call, such as the
  \<^verbatim>\<open>await\<close> of line 28 on an already settled promise, are not separate steps, since
  no other invocation can observe them.  Messages and settings are read as the
  protos deliver them; the generated protos code and the Devvit SDK are not modelled.
\<close>

section \<open>Properties across the app wiring and the handler\<close>

lemma effect_permitted_all:
  "cfg_http cfg \<Longrightarrow> cfg_redditAPI cfg \<Longrightarrow> effect_permitted cfg e"
  by (cases e) simp_all

lemmas handler_defs = onEvent_def sendModMailToWebhook_def log_error_def act_defs

lemma onEvent_example_calls:
  "\<exists>c b. Get_conversation c b \<in> set (snd (onEvent example_event
     (Some (example_host (Some ''https://hook'') [(''2abc1'', example_message None)] 204)) []))"
  "\<exists>u q. Http_fetch u q \<in> set (snd (onEvent example_event
     (Some (example_host (Some ''https://hook'') [(''2abc1'', example_message None)] 204)) []))"
  by (auto simp: handler_defs Let_def example_simps)

lemma onEvent_reads_only_webhook:
  "Settings_get k \<in> set (snd (onEvent ev ctx [])) \<Longrightarrow> k = ''webhook''"
  by (auto simp: handler_defs Let_def split: option.splits sum.splits if_splits)

text \<open>
  C17. The capabilities requested with \<^verbatim>\<open>Devvit.configure\<close> (\<open>app_config\<close>) are
  exactly those the handler needs: \<open>app_config\<close> permits every call of every invocation,
  and it is the only configuration that does.
\<close>

theorem config_capabilities_exact:
  "(\<forall>ev ctx. \<forall>e \<in> set (snd (onEvent ev ctx [])). effect_permitted app_config e) \<and>
   (\<forall>cfg. (\<forall>ev ctx. \<forall>e \<in> set (snd (onEvent ev ctx [])). effect_permitted cfg e) \<longrightarrow> cfg = app_config)"
proof (intro conjI allI impI)
  show "\<forall>e \<in> set (snd (onEvent ev ctx [])). effect_permitted app_config e" for ev ctx
    by (auto simp: app_config_def intro: effect_permitted_all)
next
  fix cfg :: devvit_config
  assume "\<forall>ev ctx. \<forall>e \<in> set (snd (onEvent ev ctx [])). effect_permitted cfg e"
  then have "cfg_http cfg" and "cfg_redditAPI cfg"
    using onEvent_example_calls by fastforce+
  then show "cfg = app_config" by (cases cfg) (simp add: app_config_def)
qed

theorem config_capabilities_exact_witness:
  "\<exists>u q. Http_fetch u q \<in> set (snd (onEvent example_event
     (Some (example_host (Some ''https://hook'') [(''2abc1'', example_message None)] 204)) [])) \<and>
     effect_permitted app_config (Http_fetch u q)"
  using config_capabilities_exact onEvent_example_calls(2) by blast

text \<open>
  C18. Every setting the handler reads is declared with \<^verbatim>\<open>Devvit.addSettings\<close> as a
  string setting.
\<close>

theorem settings_read_are_declared:
  assumes "Settings_get k \<in> set (snd (onEvent ev ctx []))"
  shows "declared_string_setting app_settings k"
  using onEvent_reads_only_webhook [OF assms]
  by (simp add: declared_string_setting_def app_settings_def)

theorem settings_read_are_declared_witness:
  "declared_string_setting app_settings ''webhook''"
  using settings_read_are_declared [where k = "''webhook''" and ev = example_event
      and ctx = "Some (example_host None [] 200)"]
  by (simp add: handler_defs Let_def example_simps)

end
